theory Spec2Isabelle
  imports Complex_Main "HOL-Library.Word"
begin

section \<open>Values, exceptions and observable events\<close>

text \<open>
  The program is a Python script (\<^verbatim>\<open>src/main.py\<close>) that wires five library-backed steps
  into an endless loop. Everything it does is a call into a library or the operating
  system, so the embedding makes those calls explicit: every call is logged as an
  \<open>event\<close>, and what a call returns or raises is supplied by a description of the outside
  world (the camera, the microphone, the network services, the operator). The control
  flow between the calls is the source's.

  Python \<open>str\<close> values are modelled as \<open>string\<close>, holding the UTF-8 bytes of the text;
  the non-ASCII letters and emoji of the source's literals are written out as their bytes.
\<close>

type_synonym byte = "8 word"
type_synonym image = "byte list"
type_synonym samples = "byte list"

text \<open>
  A Python \<open>float\<close>: \<open>Finite r\<close> carries the decimal value that the literal denotes
  (the rounding to the nearest double is not modelled; \<open>1.0\<close> is exact).
\<close>

datatype pyfloat = Finite rat | PosInf | NegInf | NaN

text \<open>
  The exceptions that can reach \<open>main\<close>. \<open>LibraryError\<close> stands for any other subclass
  of \<open>Exception\<close> raised inside a library call (network, quota, device, decoding);
  \<open>BaseExc\<close> stands for a \<open>BaseException\<close> outside the \<open>Exception\<close> hierarchy other
  than \<open>KeyboardInterrupt\<close> (\<open>SystemExit\<close>, \<open>GeneratorExit\<close>).
\<close>

datatype exn =
    RuntimeError string
  | ValueError string
  | KeyError string
  | IndexError string
  | AttributeError string
  | UnboundLocalError string
  | LibraryError string
  | KeyboardInterrupt
  | BaseExc string

fun is_Exception :: "exn \<Rightarrow> bool" where
  "is_Exception KeyboardInterrupt = False"
| "is_Exception (BaseExc _) = False"
| "is_Exception _ = True"

text \<open>\<open>str(e)\<close>, as the f-string of the loop's handler formats the exception.\<close>

fun str_exn :: "exn \<Rightarrow> string" where
  "str_exn (RuntimeError m) = m"
| "str_exn (ValueError m) = m"
| "str_exn (KeyError k) = [CHR 0x27] @ k @ [CHR 0x27]"
| "str_exn (IndexError m) = m"
| "str_exn (AttributeError m) = m"
| "str_exn (UnboundLocalError m) = m"
| "str_exn (LibraryError m) = m"
| "str_exn KeyboardInterrupt = []"
| "str_exn (BaseExc m) = m"

subsection \<open>The completion request\<close>

datatype content_part = TextPart string | ImageUrlPart string

datatype message_content = Plain string | Parts "content_part list"

record message =
  role :: string
  content :: message_content

record completion_request =
  model :: string
  messages :: "message list"
  temperature :: rat
  max_tokens :: nat

subsection \<open>Events\<close>

text \<open>
  One constructor per library or system call of the source, with the arguments the
  source passes. \<open>VideoCapture i opened\<close> also records whether the device handle was
  acquired.
\<close>

datatype action =
    LoadDotenv
  | GetEnv string
  | Print string
  | Sleep pyfloat
  | VideoCapture nat bool
  | CamRead
  | CamRelease
  | Imencode string image
  | SdRec int nat nat string
  | SdWait
  | TempFile string
  | SfWrite string samples nat
  | ReadFile string
  | Transcription string string "byte list"
  | Completion completion_request
  | ElevenLabs string
  | TtsConvert string string string
  | WriteFile string "byte list"
  | SfRead string string
  | SdPlay samples nat

text \<open>A call that returned, or a call that raised.\<close>

datatype event = Call action | Fail action exn

subsection \<open>Computations that log events and may raise\<close>

type_synonym 'a io = "(exn + 'a) \<times> event list"

definition ret :: "'a \<Rightarrow> 'a io" where
  "ret x = (Inr x, [])"

definition raise :: "exn \<Rightarrow> 'a io" where
  "raise e = (Inl e, [])"

definition bind :: "'a io \<Rightarrow> ('a \<Rightarrow> 'b io) \<Rightarrow> 'b io" where
  "bind m f =
     (case m of
        (Inl e, es) \<Rightarrow> (Inl e, es)
      | (Inr x, es) \<Rightarrow> (case f x of (r, es') \<Rightarrow> (r, es @ es')))"

text \<open>A call whose outcome the outside world decides.\<close>

definition call :: "action \<Rightarrow> exn + 'a \<Rightarrow> 'a io" where
  "call a outcome =
     (case outcome of
        Inl e \<Rightarrow> (Inl e, [Fail a e])
      | Inr x \<Rightarrow> (Inr x, [Call a]))"

text \<open>
  A call that cannot fail: reading the process environment, and \<open>load_dotenv()\<close>, which
  reports a missing file by a return value that the source ignores.
\<close>

definition perform :: "action \<Rightarrow> unit io" where
  "perform a = (Inr (), [Call a])"

section \<open>Library functions the source relies on\<close>

subsection \<open>\<open>base64.b64encode\<close>\<close>

definition b64_alphabet :: string where
  "b64_alphabet = ''ABCDEFGHIJKLMNOPQRSTUVWXYZabcdefghijklmnopqrstuvwxyz0123456789+/''"

definition b64_char :: "nat \<Rightarrow> char" where
  "b64_char i = b64_alphabet ! i"

fun b64encode :: "byte list \<Rightarrow> string" where
  "b64encode (a # b # c # rest) =
     [b64_char (unat a div 4),
      b64_char ((unat a mod 4) * 16 + unat b div 16),
      b64_char ((unat b mod 16) * 4 + unat c div 64),
      b64_char (unat c mod 64)] @ b64encode rest"
| "b64encode [a, b] =
     [b64_char (unat a div 4),
      b64_char ((unat a mod 4) * 16 + unat b div 16),
      b64_char ((unat b mod 16) * 4),
      CHR ''='']"
| "b64encode [a] =
     [b64_char (unat a div 4),
      b64_char ((unat a mod 4) * 16),
      CHR ''='',
      CHR ''='']"
| "b64encode [] = []"

section \<open>Step 1: \<open>capture_webcam_frame\<close>\<close>

text \<open>
  The camera as one call sees it. Each OpenCV call returns or raises. When it returns,
  \<open>cv2.VideoCapture(0)\<close> has opened the device or not (the flag \<open>cam.isOpened()\<close> then
  reports), and \<open>cam.read()\<close> and \<open>cv2.imencode\<close> give their \<open>ok\<close> flag and their data.
  A call raises when the library does, or when an interrupt of the operator arrives
  during it.
\<close>

record camera =
  cam_open :: "exn + bool"
  cam_read :: "exn + bool \<times> image"
  cam_release :: "exn + unit"
  cam_imencode :: "image \<Rightarrow> exn + bool \<times> byte list"

definition cam_open_msg :: string where
  "cam_open_msg = ''No se pudo abrir la webcam ('' @ [CHR 0xC3, CHR 0xAD] @ ''ndice 0).''"

definition cam_read_msg :: string where
  "cam_read_msg = ''No se pudo capturar un frame de la webcam.''"

definition cam_encode_msg :: string where
  "cam_encode_msg = ''No se pudo codificar la imagen como JPEG.''"

text \<open>The device handle is held once \<open>cv2.VideoCapture(0)\<close> has returned with the device open.\<close>

definition opened_flag :: "exn + bool \<Rightarrow> bool" where
  "opened_flag outcome = (case outcome of Inl e \<Rightarrow> False | Inr b \<Rightarrow> b)"

definition capture_webcam_frame :: "camera \<Rightarrow> string io" where
  "capture_webcam_frame c =
     bind (call (VideoCapture 0 (opened_flag (cam_open c))) (cam_open c)) (\<lambda>isOpened.
     if \<not> isOpened then raise (RuntimeError cam_open_msg)
     else
       bind (call CamRead (cam_read c)) (\<lambda>(ok, frame).
       bind (call CamRelease (cam_release c)) (\<lambda>_.
       if \<not> ok then raise (RuntimeError cam_read_msg)
       else
         bind (call (Imencode ''.jpg'' frame) (cam_imencode c frame)) (\<lambda>(ok', encoded).
         if \<not> ok' then raise (RuntimeError cam_encode_msg)
         else ret (b64encode encoded)))))"

text \<open>
  The camera handles held after a sequence of events: a \<open>VideoCapture\<close> that returned with
  the device open acquires one, a \<open>cam.release()\<close> that returned gives one back.
\<close>

fun open_handles :: "nat \<Rightarrow> event list \<Rightarrow> nat" where
  "open_handles h [] = h"
| "open_handles h (Call (VideoCapture i True) # es) = open_handles (Suc h) es"
| "open_handles h (Call CamRelease # es) = open_handles (h - 1) es"
| "open_handles h (e # es) = open_handles h es"

section \<open>Step 2: \<open>record_microphone_wav\<close>\<close>

definition AUDIO_SECONDS :: int where
  "AUDIO_SECONDS = 4"

definition AUDIO_SAMPLE_RATE :: nat where
  "AUDIO_SAMPLE_RATE = 16000"

text \<open>The decimal text of an \<open>int\<close>, as an f-string formats it.\<close>

definition digit_char :: "nat \<Rightarrow> char" where
  "digit_char d = ''0123456789'' ! d"

fun digits_of :: "nat \<Rightarrow> string" where
  "digits_of n =
     (if n < 10 then [digit_char n]
      else digits_of (n div 10) @ [digit_char (n mod 10)])"

definition str_int :: "int \<Rightarrow> string" where
  "str_int i = (if i < 0 then ''-'' @ digits_of (nat (- i)) else digits_of (nat i))"

text \<open>
  The console, the audio subsystem and the file system as one call sees them: the
  \<open>print\<close>, \<open>sd.rec\<close>, \<open>sd.wait\<close>, \<open>tempfile.NamedTemporaryFile\<close> (its result is
  \<open>tmp.name\<close>) and \<open>sf.write\<close>. Each returns or raises.
\<close>

record microphone =
  rec_print :: "exn + unit"
  sd_rec :: "exn + samples"
  sd_rec_wait :: "exn + unit"
  wav_tempfile :: "exn + string"
  sf_write :: "exn + unit"

definition recording_msg :: "int \<Rightarrow> string" where
  "recording_msg seconds =
     [CHR 0xF0, CHR 0x9F, CHR 0x8E, CHR 0xA4] @ '' Grabando audio por '' @
     str_int seconds @ '' segundos...''"

definition record_microphone_wav :: "int \<Rightarrow> microphone \<Rightarrow> string io" where
  "record_microphone_wav seconds m =
     bind (call (Print (recording_msg seconds)) (rec_print m)) (\<lambda>_.
     bind (call (SdRec (seconds * int AUDIO_SAMPLE_RATE) AUDIO_SAMPLE_RATE 1 ''float32'')
             (sd_rec m)) (\<lambda>recording.
     bind (call SdWait (sd_rec_wait m)) (\<lambda>_.
     bind (call (TempFile ''.wav'') (wav_tempfile m)) (\<lambda>tmp_name.
     bind (call (SfWrite tmp_name recording AUDIO_SAMPLE_RATE) (sf_write m)) (\<lambda>_.
     ret tmp_name)))))"

section \<open>Step 3: \<open>transcribe_audio_with_gemini\<close>\<close>

text \<open>
  \<open>str.strip()\<close> removes the white space of Unicode from both ends of the text. On the
  UTF-8 bytes of a text these are the one-byte characters tab, line feed, vertical tab,
  form feed, carriage return, \<open>0x1C\<close> to \<open>0x1F\<close> and space, and the byte sequences of
  U+0085, U+00A0, U+1680, U+2000 to U+200A, U+2028, U+2029, U+202F, U+205F and U+3000.
\<close>

definition py_spaces :: "string list" where
  "py_spaces =
     [[CHR 0x09], [CHR 0x0A], [CHR 0x0B], [CHR 0x0C], [CHR 0x0D],
      [CHR 0x1C], [CHR 0x1D], [CHR 0x1E], [CHR 0x1F], [CHR 0x20],
      [CHR 0xC2, CHR 0x85], [CHR 0xC2, CHR 0xA0], [CHR 0xE1, CHR 0x9A, CHR 0x80],
      [CHR 0xE2, CHR 0x80, CHR 0x80], [CHR 0xE2, CHR 0x80, CHR 0x81],
      [CHR 0xE2, CHR 0x80, CHR 0x82], [CHR 0xE2, CHR 0x80, CHR 0x83],
      [CHR 0xE2, CHR 0x80, CHR 0x84], [CHR 0xE2, CHR 0x80, CHR 0x85],
      [CHR 0xE2, CHR 0x80, CHR 0x86], [CHR 0xE2, CHR 0x80, CHR 0x87],
      [CHR 0xE2, CHR 0x80, CHR 0x88], [CHR 0xE2, CHR 0x80, CHR 0x89],
      [CHR 0xE2, CHR 0x80, CHR 0x8A], [CHR 0xE2, CHR 0x80, CHR 0xA8],
      [CHR 0xE2, CHR 0x80, CHR 0xA9], [CHR 0xE2, CHR 0x80, CHR 0xAF],
      [CHR 0xE2, CHR 0x81, CHR 0x9F], [CHR 0xE3, CHR 0x80, CHR 0x80]]"

text \<open>
  The number of bytes of the character at the front of the text when it is one of the
  given ones, and 0 otherwise.
\<close>

definition front_len :: "string list \<Rightarrow> string \<Rightarrow> nat" where
  "front_len seqs s =
     (case List.find (\<lambda>w. take (length w) s = w) seqs of
        None \<Rightarrow> 0
      | Some w \<Rightarrow> length w)"

fun lstrip_of :: "string list \<Rightarrow> string \<Rightarrow> string" where
  "lstrip_of seqs [] = []"
| "lstrip_of seqs (c # cs) =
     (case front_len seqs (c # cs) of
        0 \<Rightarrow> c # cs
      | Suc n \<Rightarrow> lstrip_of seqs (drop n cs))"

text \<open>The right end is stripped on the reversed text, against the reversed sequences.\<close>

definition strip :: "string \<Rightarrow> string" where
  "strip s = rev (lstrip_of (map rev py_spaces) (rev (lstrip_of py_spaces s)))"

definition TRANSCRIPTION_MODEL :: string where
  "TRANSCRIPTION_MODEL = ''gemini/gemini-2.0-flash''"

record transcriber =
  wav_bytes :: "exn + byte list"
  transcription :: "exn + string"

definition transcribe_audio_with_gemini :: "string \<Rightarrow> transcriber \<Rightarrow> string io" where
  "transcribe_audio_with_gemini wav_path t =
     bind (call (ReadFile wav_path) (wav_bytes t)) (\<lambda>audio_bytes.
     bind (call (Transcription TRANSCRIPTION_MODEL ''mic.wav'' audio_bytes)
             (transcription t)) (\<lambda>text.
     ret (strip text)))"

section \<open>Step 4: \<open>generate_goofy_reply\<close>\<close>

definition VISION_TEXT_MODEL :: string where
  "VISION_TEXT_MODEL = ''gemini/gemini-2.0-flash''"

definition GOOFY_SYSTEM_PROMPT :: string where
  "GOOFY_SYSTEM_PROMPT =
     strip ([CHR 0x0A] @
       ''Eres una c'' @ [CHR 0xC3, CHR 0xA1] @
       ''mara de seguridad IA muy graciosa y exagerada.'' @ [CHR 0x0A] @
       ''Habla SIEMPRE en espa'' @ [CHR 0xC3, CHR 0xB1] @ ''ol.'' @ [CHR 0x0A] @
       ''S'' @ [CHR 0xC3, CHR 0xA9] @
       '' breve (1-3 frases), divertida y amigable.'' @ [CHR 0x0A] @
       ''Describe qu'' @ [CHR 0xC3, CHR 0xA9] @ '' ves y qu'' @ [CHR 0xC3, CHR 0xA9] @
       '' escuchas, pero evita inventar hechos peligrosos.'' @ [CHR 0x0A])"

text \<open>\<open>a or b\<close> on strings: the empty string is false.\<close>

definition py_or :: "string \<Rightarrow> string \<Rightarrow> string" where
  "py_or a b = (if a = [] then b else a)"

definition no_audio_placeholder :: string where
  "no_audio_placeholder = ''[sin audio claro]''"

definition user_text :: "string \<Rightarrow> string" where
  "user_text transcript_text =
     ''Este es el contexto del micr'' @ [CHR 0xC3, CHR 0xB3] @ ''fono transcrito: '' @
     [CHR 0x27] @ py_or transcript_text no_audio_placeholder @ [CHR 0x27] @ ''. '' @
     ''Describe qu'' @ [CHR 0xC3, CHR 0xA9] @ '' est'' @ [CHR 0xC3, CHR 0xA1] @
     '' pasando como una c'' @ [CHR 0xC3, CHR 0xA1] @ ''mara de seguridad c'' @
     [CHR 0xC3, CHR 0xB3] @ ''mica.''"

definition user_content :: "string \<Rightarrow> string \<Rightarrow> content_part list" where
  "user_content frame_b64 transcript_text =
     [TextPart (user_text transcript_text),
      ImageUrlPart (''data:image/jpeg;base64,'' @ frame_b64)]"

definition reply_request :: "string \<Rightarrow> string \<Rightarrow> completion_request" where
  "reply_request frame_b64 transcript_text =
     \<lparr>model = VISION_TEXT_MODEL,
      messages =
        [\<lparr>role = ''system'', content = Plain GOOFY_SYSTEM_PROMPT\<rparr>,
         \<lparr>role = ''user'', content = Parts (user_content frame_b64 transcript_text)\<rparr>],
      temperature = 9 / 10,
      max_tokens = 100\<rparr>"

text \<open>
  The completion service answers with a list of choices, each with a message content
  that may be missing (\<open>None\<close>). \<open>choices[0]\<close> on an empty list and \<open>.strip()\<close> on
  \<open>None\<close> raise.
\<close>

definition generate_goofy_reply ::
    "string \<Rightarrow> string \<Rightarrow> exn + string option list \<Rightarrow> string io" where
  "generate_goofy_reply frame_b64 transcript_text completion =
     bind (call (Completion (reply_request frame_b64 transcript_text)) completion)
       (\<lambda>choices.
     case choices of
       [] \<Rightarrow> raise (IndexError ''list index out of range'')
     | c # _ \<Rightarrow>
         (case c of
            None \<Rightarrow> raise (AttributeError
              ([CHR 0x27] @ ''NoneType'' @ [CHR 0x27] @ '' object has no attribute '' @
               [CHR 0x27] @ ''strip'' @ [CHR 0x27]))
          | Some s \<Rightarrow> ret (strip s)))"

section \<open>Step 5: \<open>speak_with_elevenlabs\<close>\<close>

type_synonym environ = "string \<rightharpoonup> string"

text \<open>\<open>os.environ[name]\<close>: a missing name raises \<open>KeyError\<close>.\<close>

definition environ_item :: "environ \<Rightarrow> string \<Rightarrow> string io" where
  "environ_item env name =
     call (GetEnv name) (case env name of None \<Rightarrow> Inl (KeyError name) | Some v \<Rightarrow> Inr v)"

text \<open>
  The speech service, the file system and the audio output as one call sees them.
  \<open>el_client\<close> is the construction of the client. \<open>convert\<close> returns an iterator of
  chunks that \<open>b"".join(audio)\<close> consumes at once, so a failure of the request or of the
  stream is one outcome, \<open>tts_convert\<close>.
\<close>

record speaker =
  el_client :: "exn + unit"
  tts_convert :: "exn + byte list list"
  mp3_tempfile :: "exn + string"
  mp3_write :: "exn + unit"
  sf_read :: "exn + samples \<times> nat"
  sd_play :: "exn + unit"
  sd_play_wait :: "exn + unit"

definition speak_with_elevenlabs ::
    "environ \<Rightarrow> string \<Rightarrow> string \<Rightarrow> speaker \<Rightarrow> unit io" where
  "speak_with_elevenlabs env text voice_id s =
     bind (environ_item env ''ELEVENLABS_API_KEY'') (\<lambda>api_key.
     bind (call (ElevenLabs api_key) (el_client s)) (\<lambda>_.
     bind (call (TtsConvert voice_id ''eleven_multilingual_v2'' text) (tts_convert s))
       (\<lambda>audio.
     let audio_bytes = concat audio in
     bind (call (TempFile ''.mp3'') (mp3_tempfile s)) (\<lambda>mp3_path.
     bind (call (WriteFile mp3_path audio_bytes) (mp3_write s)) (\<lambda>_.
     bind (call (SfRead mp3_path ''float32'') (sf_read s)) (\<lambda>(data, sr).
     bind (call (SdPlay data sr) (sd_play s)) (\<lambda>_.
     call SdWait (sd_play_wait s))))))))"

section \<open>\<open>float(str)\<close>\<close>

text \<open>
  Python's conversion of a string to a float. On a string of ASCII characters:
  surrounding white space (space, tab, line feed, vertical tab, form feed, carriage
  return) is stripped; single underscores may separate digits; then either a decimal
  numeral (optional sign, digits with an optional point, at least one digit, optional
  exponent) or, in any letter case, \<open>inf\<close>, \<open>infinity\<close> or \<open>nan\<close> with an optional
  sign. Anything else raises \<open>ValueError\<close>, with a message that ends in the \<open>repr\<close> of
  the string.

  On a string with a character beyond ASCII the result depends on the Unicode tables of
  the interpreter (the decimal digits and the white space of every script). That part
  of the builtin is not defined here: it is a parameter, \<open>beyond\<close>.
\<close>

definition is_ascii :: "string \<Rightarrow> bool" where
  "is_ascii s \<longleftrightarrow> list_all (\<lambda>c. \<not> digit7 c) s"

definition hex_char :: "nat \<Rightarrow> char" where
  "hex_char d = ''0123456789abcdef'' ! d"

text \<open>
  \<open>repr\<close> of a string of ASCII characters: in double quotes when the string has a single
  quote and no double quote, in single quotes otherwise; the backslash and the chosen
  quote escaped, tab, line feed and carriage return by their letters, every other
  control character as \<open>\xNN\<close>.
\<close>

definition repr_char :: "char \<Rightarrow> char \<Rightarrow> string" where
  "repr_char q c =
     (if c = q \<or> c = CHR 0x5C then [CHR 0x5C, c]
      else if c = CHR 0x09 then [CHR 0x5C, CHR ''t'']
      else if c = CHR 0x0A then [CHR 0x5C, CHR ''n'']
      else if c = CHR 0x0D then [CHR 0x5C, CHR ''r'']
      else if (of_char c :: nat) < 32 \<or> c = CHR 0x7F then
        [CHR 0x5C, CHR ''x'', hex_char ((of_char c :: nat) div 16),
         hex_char ((of_char c :: nat) mod 16)]
      else [c])"

definition py_repr :: "string \<Rightarrow> string" where
  "py_repr s =
     (let q = (if CHR 0x27 \<in> set s \<and> CHR 0x22 \<notin> set s then CHR 0x22 else CHR 0x27)
      in [q] @ concat (map (repr_char q) s) @ [q])"

definition c_isspace :: "char \<Rightarrow> bool" where
  "c_isspace c \<longleftrightarrow>
     c \<in> set [CHR 0x09, CHR 0x0A, CHR 0x0B, CHR 0x0C, CHR 0x0D, CHR 0x20]"

definition float_strip :: "string \<Rightarrow> string" where
  "float_strip s = rev (dropWhile c_isspace (rev (dropWhile c_isspace s)))"

definition is_digit :: "char \<Rightarrow> bool" where
  "is_digit c \<longleftrightarrow> c \<in> set ''0123456789''"

definition digit_val :: "char \<Rightarrow> nat" where
  "digit_val c = of_char c - 48"

definition nat_of_digits :: "string \<Rightarrow> nat" where
  "nat_of_digits ds = foldl (\<lambda>n c. 10 * n + digit_val c) 0 ds"

definition ascii_lower :: "char \<Rightarrow> char" where
  "ascii_lower c =
     (if 65 \<le> (of_char c :: nat) \<and> (of_char c :: nat) \<le> 90
      then char_of ((of_char c :: nat) + 32) else c)"

text \<open>
  Underscores: one is allowed only directly after a digit and directly before a digit.
  The first argument is the previous character.
\<close>

fun drop_underscores :: "char \<Rightarrow> string \<Rightarrow> string option" where
  "drop_underscores prev [] = (if prev = CHR ''_'' then None else Some [])"
| "drop_underscores prev (c # cs) =
     (if c = CHR ''_'' then
        (if is_digit prev then drop_underscores c cs else None)
      else if prev = CHR ''_'' \<and> \<not> is_digit c then None
      else map_option ((#) c) (drop_underscores c cs))"

definition take_sign :: "string \<Rightarrow> bool \<times> string" where
  "take_sign s =
     (case s of
        [] \<Rightarrow> (False, [])
      | c # cs \<Rightarrow>
          if c = CHR ''-'' then (True, cs)
          else if c = CHR ''+'' then (False, cs)
          else (False, s))"

definition scale10 :: "bool \<Rightarrow> nat \<Rightarrow> int \<Rightarrow> pyfloat" where
  "scale10 neg m e =
     (let v = (if 0 \<le> e then of_nat m * 10 ^ nat e else of_nat m / 10 ^ nat (- e))
      in Finite (if neg then - v else v))"

definition parse_decimal :: "string \<Rightarrow> pyfloat option" where
  "parse_decimal s =
     (case take_sign s of (neg, r0) \<Rightarrow>
      let ip = takeWhile is_digit r0;
          r1 = dropWhile is_digit r0;
          fp = (case r1 of [] \<Rightarrow> [] | c # t \<Rightarrow> if c = CHR ''.'' then takeWhile is_digit t else []);
          r2 = (case r1 of [] \<Rightarrow> [] | c # t \<Rightarrow> if c = CHR ''.'' then dropWhile is_digit t else r1)
      in
      if ip = [] \<and> fp = [] then None
      else
        (case r2 of
           [] \<Rightarrow> Some (scale10 neg (nat_of_digits (ip @ fp)) (- int (length fp)))
         | c # t \<Rightarrow>
             if c = CHR ''e'' \<or> c = CHR ''E'' then
               (case take_sign t of (eneg, ed) \<Rightarrow>
                if ed \<noteq> [] \<and> list_all is_digit ed then
                  Some (scale10 neg (nat_of_digits (ip @ fp))
                    ((if eneg then - int (nat_of_digits ed) else int (nat_of_digits ed))
                     - int (length fp)))
                else None)
             else None))"

definition parse_inf_or_nan :: "string \<Rightarrow> pyfloat option" where
  "parse_inf_or_nan s =
     (case take_sign s of (neg, r) \<Rightarrow>
      let l = map ascii_lower r in
      if l = ''inf'' \<or> l = ''infinity'' then Some (if neg then NegInf else PosInf)
      else if l = ''nan'' then Some NaN
      else None)"

definition float_error :: "string \<Rightarrow> exn" where
  "float_error s = ValueError (''could not convert string to float: '' @ py_repr s)"

definition ascii_float :: "string \<Rightarrow> exn + pyfloat" where
  "ascii_float s =
     (case drop_underscores (CHR 0x00) (float_strip s) of
        None \<Rightarrow> Inl (float_error s)
      | Some u \<Rightarrow>
          (case parse_decimal u of
             Some v \<Rightarrow> Inr v
           | None \<Rightarrow>
               (case parse_inf_or_nan u of
                  Some v \<Rightarrow> Inr v
                | None \<Rightarrow> Inl (float_error s))))"

definition py_float :: "(string \<Rightarrow> exn + pyfloat) \<Rightarrow> string \<Rightarrow> exn + pyfloat" where
  "py_float beyond s = (if is_ascii s then ascii_float s else beyond s)"

section \<open>\<open>main\<close>\<close>

subsection \<open>The environment\<close>

text \<open>
  \<open>load_dotenv()\<close> adds the bindings of the \<^verbatim>\<open>.env\<close> file to the process environment
  without overriding a variable that is already set.
\<close>

definition load_dotenv :: "environ \<Rightarrow> environ \<Rightarrow> environ" where
  "load_dotenv dotenv env = dotenv ++ env"

text \<open>\<open>os.getenv(name)\<close> and \<open>os.getenv(name, default)\<close>.\<close>

definition getenv :: "environ \<Rightarrow> string \<Rightarrow> string option io" where
  "getenv env name = bind (perform (GetEnv name)) (\<lambda>_. ret (env name))"

definition getenv_default :: "environ \<Rightarrow> string \<Rightarrow> string \<Rightarrow> string io" where
  "getenv_default env name fallback =
     bind (perform (GetEnv name)) (\<lambda>_.
     ret (case env name of None \<Rightarrow> fallback | Some v \<Rightarrow> v))"

text \<open>\<open>not v\<close> for \<open>v\<close> a string or \<open>None\<close>: true for \<open>None\<close> and for the empty string.\<close>

definition py_not :: "string option \<Rightarrow> bool" where
  "py_not v \<longleftrightarrow> v = None \<or> v = Some []"

subsection \<open>Local variables and statements\<close>

text \<open>
  The local variables of \<open>main\<close>. They live across the iterations of the loop, as
  Python's function locals do; the four that the loop assigns are unbound at first.
\<close>

record locals =
  voice_id :: string
  loop_delay :: pyfloat
  frame_b64 :: "string option"
  wav_path :: "string option"
  transcript_text :: "string option"
  reply :: "string option"

text \<open>
  A statement of the loop body runs on the locals and yields the exception that left it
  (if any), the locals after it and the events it caused.
\<close>

type_synonym stmt = "locals \<Rightarrow> exn option \<times> locals \<times> event list"

definition seq :: "stmt \<Rightarrow> stmt \<Rightarrow> stmt" where
  "seq s1 s2 lv =
     (case s1 lv of
        (Some e, lv1, es1) \<Rightarrow> (Some e, lv1, es1)
      | (None, lv1, es1) \<Rightarrow> (case s2 lv1 of (r, lv2, es2) \<Rightarrow> (r, lv2, es1 @ es2)))"

text \<open>\<open>x = f(...)\<close>: the variable is assigned only when the call returns.\<close>

definition assign :: "('a \<Rightarrow> locals \<Rightarrow> locals) \<Rightarrow> 'a io \<Rightarrow> stmt" where
  "assign upd m lv =
     (case m of
        (Inl e, es) \<Rightarrow> (Some e, lv, es)
      | (Inr v, es) \<Rightarrow> (None, upd v lv, es))"

text \<open>An expression statement.\<close>

definition exec :: "unit io \<Rightarrow> stmt" where
  "exec m lv =
     (case m of
        (Inl e, es) \<Rightarrow> (Some e, lv, es)
      | (Inr _, es) \<Rightarrow> (None, lv, es))"

text \<open>Reading a local variable: an unbound one raises \<open>UnboundLocalError\<close>.\<close>

definition unbound_msg :: "string \<Rightarrow> string" where
  "unbound_msg name =
     ''cannot access local variable '' @ [CHR 0x27] @ name @ [CHR 0x27] @
     '' where it is not associated with a value''"

definition load :: "string \<Rightarrow> (locals \<Rightarrow> 'a option) \<Rightarrow> ('a \<Rightarrow> stmt) \<Rightarrow> stmt" where
  "load name var k lv =
     (case var lv of
        None \<Rightarrow> (Some (UnboundLocalError (unbound_msg name)), lv, [])
      | Some x \<Rightarrow> k x lv)"

subsection \<open>Start-up\<close>

definition DEFAULT_VOICE_ID :: string where
  "DEFAULT_VOICE_ID = ''JBFqnCBsd6RMkjVDRZzb''"

definition gemini_missing_msg :: string where
  "gemini_missing_msg = ''Falta GEMINI_API_KEY en variables de entorno.''"

definition elevenlabs_missing_msg :: string where
  "elevenlabs_missing_msg = ''Falta ELEVENLABS_API_KEY en variables de entorno.''"

definition started_banner :: string where
  "started_banner =
     [CHR 0xF0, CHR 0x9F, CHR 0xA4, CHR 0x96] @ '' C'' @ [CHR 0xC3, CHR 0xA1] @
     ''mara IA graciosa iniciada. Ctrl+C para salir.''"

text \<open>
  What start-up meets beyond the environment: what \<open>float\<close> does with a string that has
  a character beyond ASCII, and whether the \<open>print\<close> of the banner returns.
\<close>

record boot =
  unicode_float :: "string \<Rightarrow> exn + pyfloat"
  banner_print :: "exn + unit"

text \<open>The statements of \<open>main\<close> from \<open>load_dotenv()\<close> to the banner.\<close>

definition startup :: "boot \<Rightarrow> environ \<Rightarrow> locals io" where
  "startup bt env =
     bind (perform LoadDotenv) (\<lambda>_.
     bind (getenv env ''GEMINI_API_KEY'') (\<lambda>gemini_key.
     if py_not gemini_key then raise (RuntimeError gemini_missing_msg)
     else
       bind (getenv env ''ELEVENLABS_API_KEY'') (\<lambda>elevenlabs_key.
       if py_not elevenlabs_key then raise (RuntimeError elevenlabs_missing_msg)
       else
         bind (getenv_default env ''ELEVENLABS_VOICE_ID'' DEFAULT_VOICE_ID) (\<lambda>voice.
         bind (getenv_default env ''LOOP_DELAY_SECONDS'' ''1.0'') (\<lambda>delay_text.
         bind (py_float (unicode_float bt) delay_text, []) (\<lambda>delay.
         bind (call (Print started_banner) (banner_print bt)) (\<lambda>_.
         ret \<lparr>voice_id = voice, loop_delay = delay, frame_b64 = None,
              wav_path = None, transcript_text = None, reply = None\<rparr>)))))))"

subsection \<open>The loop\<close>

text \<open>
  What the outside world does during one iteration: the devices and services of the five
  steps, and whether each \<open>print\<close> and each \<open>time.sleep\<close> of \<open>main\<close> returns or is cut
  short by an exception (an operator interrupt, a closed output stream, the rejection of
  the delay value).
\<close>

record world =
  w_camera :: camera
  w_microphone :: microphone
  w_transcriber :: transcriber
  w_transcript_print :: "exn + unit"
  w_completion :: "exn + string option list"
  w_reply_print :: "exn + unit"
  w_speaker :: speaker
  w_delay_sleep :: "exn + unit"
  w_farewell_print :: "exn + unit"
  w_handler_print :: "exn + unit"
  w_backoff_sleep :: "exn + unit"

definition transcript_msg :: "string \<Rightarrow> string" where
  "transcript_msg t =
     [CHR 0xF0, CHR 0x9F, CHR 0x93, CHR 0x9D] @ '' Transcripci'' @ [CHR 0xC3, CHR 0xB3] @
     ''n: '' @ py_or t (''[vac'' @ [CHR 0xC3, CHR 0xAD] @ ''o]'')"

definition reply_msg :: "string \<Rightarrow> string" where
  "reply_msg r =
     [CHR 0xF0, CHR 0x9F, CHR 0x97, CHR 0xA3, CHR 0xEF, CHR 0xB8, CHR 0x8F] @
     '' Respuesta IA: '' @ r"

definition farewell_msg :: string where
  "farewell_msg = [CHR 0x0A, CHR 0xF0, CHR 0x9F, CHR 0x91, CHR 0x8B] @ '' Saliendo...''"

definition loop_error_msg :: "exn \<Rightarrow> string" where
  "loop_error_msg e =
     [CHR 0xE2, CHR 0x9A, CHR 0xA0, CHR 0xEF, CHR 0xB8, CHR 0x8F] @ '' Error en loop: '' @
     str_exn e"

text \<open>The body of the \<open>try\<close>, statement by statement.\<close>

definition try_body :: "environ \<Rightarrow> world \<Rightarrow> stmt" where
  "try_body env w =
     seq (assign (\<lambda>v lv. lv\<lparr>frame_b64 := Some v\<rparr>) (capture_webcam_frame (w_camera w)))
    (seq (assign (\<lambda>v lv. lv\<lparr>wav_path := Some v\<rparr>)
            (record_microphone_wav AUDIO_SECONDS (w_microphone w)))
    (seq (load ''wav_path'' wav_path (\<lambda>p.
            assign (\<lambda>v lv. lv\<lparr>transcript_text := Some v\<rparr>)
              (transcribe_audio_with_gemini p (w_transcriber w))))
    (seq (load ''transcript_text'' transcript_text (\<lambda>t.
            exec (call (Print (transcript_msg t)) (w_transcript_print w))))
    (seq (load ''frame_b64'' frame_b64 (\<lambda>f.
          load ''transcript_text'' transcript_text (\<lambda>t.
            assign (\<lambda>v lv. lv\<lparr>reply := Some v\<rparr>)
              (generate_goofy_reply f t (w_completion w)))))
    (seq (load ''reply'' reply (\<lambda>r. exec (call (Print (reply_msg r)) (w_reply_print w))))
    (seq (load ''reply'' reply (\<lambda>r. \<lambda>lv.
            exec (speak_with_elevenlabs env r (voice_id lv) (w_speaker w)) lv))
         (\<lambda>lv. exec (call (Sleep (loop_delay lv)) (w_delay_sleep w)) lv)))))))"

text \<open>
  How a run of \<open>main\<close> ends: the loop was left by \<open>break\<close> and \<open>main\<close> returned, an
  exception left \<open>main\<close>, or the loop is still running when the described iterations
  are used up.
\<close>

datatype outcome = Exited | Uncaught exn | Running

definition after :: "event list \<Rightarrow> outcome \<times> event list \<Rightarrow> outcome \<times> event list" where
  "after es r = (fst r, es @ snd r)"

text \<open>
  The two handlers. The statements of a handler are outside the \<open>try\<close>: an exception
  raised by one of them leaves \<open>main\<close>.
\<close>

definition on_interrupt :: "world \<Rightarrow> unit io" where
  "on_interrupt w = call (Print farewell_msg) (w_farewell_print w)"

definition on_exception :: "world \<Rightarrow> exn \<Rightarrow> unit io" where
  "on_exception w e =
     bind (call (Print (loop_error_msg e)) (w_handler_print w)) (\<lambda>_.
     call (Sleep (Finite 1)) (w_backoff_sleep w))"

text \<open>
  \<open>while True\<close> with its two handlers. The list holds what the world does in each
  iteration to come.
\<close>

fun loop :: "environ \<Rightarrow> locals \<Rightarrow> world list \<Rightarrow> outcome \<times> event list" where
  "loop env lv [] = (Running, [])"
| "loop env lv (w # ws) =
     (case try_body env w lv of
        (None, lv', es) \<Rightarrow> after es (loop env lv' ws)
      | (Some e, lv', es) \<Rightarrow>
          if e = KeyboardInterrupt then
            (case on_interrupt w of
               (Inl e', es') \<Rightarrow> (Uncaught e', es @ es')
             | (Inr _, es') \<Rightarrow> (Exited, es @ es'))
          else if is_Exception e then
            (case on_exception w e of
               (Inl e', es') \<Rightarrow> (Uncaught e', es @ es')
             | (Inr _, es') \<Rightarrow> after (es @ es') (loop env lv' ws))
          else (Uncaught e, es))"

definition main :: "boot \<Rightarrow> environ \<Rightarrow> environ \<Rightarrow> world list \<Rightarrow> outcome \<times> event list" where
  "main bt dotenv os_environ ws =
     (let env = load_dotenv dotenv os_environ in
      case startup bt env of
        (Inl e, es) \<Rightarrow> (Uncaught e, es)
      | (Inr lv, es) \<Rightarrow> after es (loop env lv ws))"

section \<open>What start-up reads and leaves behind\<close>

text \<open>The locals when the loop is entered, given the voice and the delay resolved.\<close>

definition initial_locals :: "string \<Rightarrow> pyfloat \<Rightarrow> locals" where
  "initial_locals voice delay =
     \<lparr>voice_id = voice, loop_delay = delay, frame_b64 = None, wav_path = None,
      transcript_text = None, reply = None\<rparr>"

text \<open>
  The two optional settings as \<open>os.getenv(name, default)\<close> resolves them, and the events
  of a start-up that read all four variables.
\<close>

definition delay_text :: "environ \<Rightarrow> string" where
  "delay_text env = (case env ''LOOP_DELAY_SECONDS'' of None \<Rightarrow> ''1.0'' | Some v \<Rightarrow> v)"

definition voice_text :: "environ \<Rightarrow> string" where
  "voice_text env =
     (case env ''ELEVENLABS_VOICE_ID'' of None \<Rightarrow> DEFAULT_VOICE_ID | Some v \<Rightarrow> v)"

definition env_reads :: "event list" where
  "env_reads =
     [Call LoadDotenv, Call (GetEnv ''GEMINI_API_KEY''), Call (GetEnv ''ELEVENLABS_API_KEY''),
      Call (GetEnv ''ELEVENLABS_VOICE_ID''), Call (GetEnv ''LOOP_DELAY_SECONDS'')]"

section \<open>Reading the event log\<close>

definition event_action :: "event \<Rightarrow> action" where
  "event_action ev = (case ev of Call a \<Rightarrow> a | Fail a e \<Rightarrow> a)"

section \<open>Predicates on runs\<close>

text \<open>Two values of the locals with the same configuration: voice and delay.\<close>

definition same_config :: "locals \<Rightarrow> locals \<Rightarrow> bool" where
  "same_config lv lv' \<longleftrightarrow> voice_id lv' = voice_id lv \<and> loop_delay lv' = loop_delay lv"

text \<open>
  What an event of the running loop may be, given the environment and the locals at the
  start of the loop: the only environment variable read is \<open>ELEVENLABS_API_KEY\<close>, the
  speech client is built with the value the environment holds for it, every synthesis
  request names the voice of the locals, and every pause lasts the delay of the locals or
  the fixed second of the handler. The \<^verbatim>\<open>.env\<close> file is not loaded again.
\<close>

definition steady_event :: "environ \<Rightarrow> locals \<Rightarrow> event \<Rightarrow> bool" where
  "steady_event env lv ev =
     (case event_action ev of
        LoadDotenv \<Rightarrow> False
      | GetEnv name \<Rightarrow> name = ''ELEVENLABS_API_KEY''
      | ElevenLabs key \<Rightarrow> env ''ELEVENLABS_API_KEY'' = Some key
      | TtsConvert v m t \<Rightarrow> v = voice_id lv
      | Sleep d \<Rightarrow> d = loop_delay lv \<or> d = Finite 1
      | _ \<Rightarrow> True)"

text \<open>
  No playback is left open: every \<open>sd.play\<close> that returned is followed at once by the
  \<open>sd.wait\<close> call, which blocks until the playback has finished (and which closes the
  output stream also when it is left by an exception).
\<close>

fun playback_closed :: "event list \<Rightarrow> bool" where
  "playback_closed [] = True"
| "playback_closed (Call (SdPlay d r) # es) =
     (case es of [] \<Rightarrow> False | ev # es' \<Rightarrow> event_action ev = SdWait \<and> playback_closed es')"
| "playback_closed (ev # es) = playback_closed es"

section \<open>Sample devices and services\<close>

text \<open>Concrete behaviours of the outside world, used to run the definitions.\<close>

definition good_camera :: camera where
  "good_camera =
     \<lparr>cam_open = Inr True, cam_read = Inr (True, [1, 2, 3]), cam_release = Inr (),
      cam_imencode = (\<lambda>frame. Inr (True, 0xFF # 0xD8 # frame))\<rparr>"

definition good_microphone :: microphone where
  "good_microphone =
     \<lparr>rec_print = Inr (), sd_rec = Inr [0, 1], sd_rec_wait = Inr (),
      wav_tempfile = Inr ''/tmp/a.wav'', sf_write = Inr ()\<rparr>"

definition good_transcriber :: transcriber where
  "good_transcriber = \<lparr>wav_bytes = Inr [7], transcription = Inr '' hola ''\<rparr>"

definition good_speaker :: speaker where
  "good_speaker =
     \<lparr>el_client = Inr (), tts_convert = Inr [[1], [2, 3]], mp3_tempfile = Inr ''/tmp/b.mp3'',
      mp3_write = Inr (), sf_read = Inr ([9], 44100), sd_play = Inr (),
      sd_play_wait = Inr ()\<rparr>"

definition good_world :: world where
  "good_world =
     \<lparr>w_camera = good_camera, w_microphone = good_microphone,
      w_transcriber = good_transcriber, w_transcript_print = Inr (),
      w_completion = Inr [Some ''jaja ''], w_reply_print = Inr (),
      w_speaker = good_speaker, w_delay_sleep = Inr (), w_farewell_print = Inr (),
      w_handler_print = Inr (), w_backoff_sleep = Inr ()\<rparr>"

text \<open>
  A start-up whose banner is printed, under an interpreter whose \<open>float\<close> reads the
  Arabic-Indic digit one (U+0661) as \<open>1.0\<close>; the other strings beyond ASCII do not occur
  in the runs below and are rejected here.
\<close>

definition arabic_one :: string where
  "arabic_one = [CHR 0xD9, CHR 0xA1]"

definition good_boot :: boot where
  "good_boot =
     \<lparr>unicode_float =
        (\<lambda>s. if s = arabic_one then Inr (Finite 1)
             else Inl (ValueError ''could not convert string to float'')),
      banner_print = Inr ()\<rparr>"

text \<open>The same start-up with the standard output closed: the \<open>print\<close> of the banner raises.\<close>

definition closed_stdout_boot :: boot where
  "closed_stdout_boot = good_boot\<lparr>banner_print := Inl (LibraryError ''[Errno 32] Broken pipe'')\<rparr>"

definition both_keys :: environ where
  "both_keys = [''GEMINI_API_KEY'' \<mapsto> ''g-key'', ''ELEVENLABS_API_KEY'' \<mapsto> ''e-key'']"

text \<open>The events of an iteration in which every device and service works.\<close>

definition good_events :: "string \<Rightarrow> pyfloat \<Rightarrow> event list" where
  "good_events voice delay =
     [Call (VideoCapture 0 True), Call CamRead, Call CamRelease,
      Call (Imencode ''.jpg'' [1, 2, 3]),
      Call (Print (recording_msg 4)),
      Call (SdRec 64000 16000 1 ''float32''), Call SdWait, Call (TempFile ''.wav''),
      Call (SfWrite ''/tmp/a.wav'' [0, 1] 16000),
      Call (ReadFile ''/tmp/a.wav''),
      Call (Transcription ''gemini/gemini-2.0-flash'' ''mic.wav'' [7]),
      Call (Print (transcript_msg ''hola'')),
      Call (Completion (reply_request ''/9gBAgM='' ''hola'')),
      Call (Print (reply_msg ''jaja'')),
      Call (GetEnv ''ELEVENLABS_API_KEY''), Call (ElevenLabs ''e-key''),
      Call (TtsConvert voice ''eleven_multilingual_v2'' ''jaja''),
      Call (TempFile ''.mp3''), Call (WriteFile ''/tmp/b.mp3'' [1, 2, 3]),
      Call (SfRead ''/tmp/b.mp3'' ''float32''), Call (SdPlay [9] 44100), Call SdWait,
      Call (Sleep delay)]"

text \<open>
  Worlds in which something goes wrong: the camera does not open; the operator presses
  Ctrl+C while \<open>sd.wait()\<close> records; the operator presses Ctrl+C while the frame is
  read from the camera; the operator presses Ctrl+C while the completion service is
  awaited.
\<close>

definition no_camera_world :: world where
  "no_camera_world = good_world\<lparr>w_camera := good_camera\<lparr>cam_open := Inr False\<rparr>\<rparr>"

definition interrupted_world :: world where
  "interrupted_world =
     good_world\<lparr>w_microphone := good_microphone\<lparr>sd_rec_wait := Inl KeyboardInterrupt\<rparr>\<rparr>"

definition interrupted_camera :: camera where
  "interrupted_camera = good_camera\<lparr>cam_read := Inl KeyboardInterrupt\<rparr>"

definition interrupted_completion_world :: world where
  "interrupted_completion_world = good_world\<lparr>w_completion := Inl KeyboardInterrupt\<rparr>"

text \<open>
  A world in which the transcription call is left by \<open>SystemExit\<close>, an exception outside
  the \<open>Exception\<close> hierarchy.
\<close>

definition exiting_world :: world where
  "exiting_world =
     good_world\<lparr>w_transcriber := good_transcriber\<lparr>transcription := Inl (BaseExc ''SystemExit'')\<rparr>\<rparr>"

text \<open>
  Worlds in which one of the later steps fails: no input device for the recording, a
  transcription request refused, a completion that comes back without choices, and a
  speech request cut off.
\<close>

definition no_microphone_world :: world where
  "no_microphone_world =
     good_world\<lparr>w_microphone :=
       good_microphone\<lparr>sd_rec := Inl (LibraryError ''No input device'')\<rparr>\<rparr>"

definition no_transcription_world :: world where
  "no_transcription_world =
     good_world\<lparr>w_transcriber :=
       good_transcriber\<lparr>transcription := Inl (LibraryError ''quota exceeded'')\<rparr>\<rparr>"

definition no_completion_world :: world where
  "no_completion_world = good_world\<lparr>w_completion := Inr []\<rparr>"

definition no_speech_world :: world where
  "no_speech_world =
     good_world\<lparr>w_speaker :=
       good_speaker\<lparr>tts_convert := Inl (LibraryError ''connection reset'')\<rparr>\<rparr>"

section \<open>Properties\<close>

subsection \<open>Library models and the event monad\<close>

lemma b64encode_rfc4648_vectors:
  "b64encode [0x66] = ''Zg==''"
  "b64encode [0x66, 0x6F] = ''Zm8=''"
  "b64encode [0x66, 0x6F, 0x6F] = ''Zm9v''"
  "b64encode [0x66, 0x6F, 0x6F, 0x62, 0x61, 0x72] = ''Zm9vYmFy''"
  by (simp_all add: b64_char_def b64_alphabet_def)

lemma bind_perform: "bind (perform a) f = (fst (f ()), Call a # snd (f ()))"
  by (simp add: bind_def perform_def split: prod.splits)

lemma bind_ret: "bind (ret x) f = f x"
  by (simp add: bind_def ret_def split: prod.splits)

lemma bind_Inl: "bind (Inl e, es) f = (Inl e, es)"
  by (simp add: bind_def)

lemma bind_Inr: "bind (Inr x, es) f = (fst (f x), es @ snd (f x))"
  by (simp add: bind_def split: prod.splits)

lemma bind_call_Inl: "bind (call a (Inl e)) f = (Inl e, [Fail a e])"
  by (simp add: bind_def call_def)

lemma bind_call_Inr: "bind (call a (Inr x)) f = (fst (f x), Call a # snd (f x))"
  by (simp add: bind_def call_def split: prod.splits)

lemmas io_simps =
  bind_perform bind_ret bind_Inl bind_Inr bind_call_Inl bind_call_Inr raise_def ret_def

subsection \<open>The frame capturer\<close>

lemma capture_unfold:
  "capture_webcam_frame c =
     (case cam_open c of
        Inl e \<Rightarrow> (Inl e, [Fail (VideoCapture 0 False) e])
      | Inr opened \<Rightarrow>
          if \<not> opened then (Inl (RuntimeError cam_open_msg), [Call (VideoCapture 0 False)])
          else
     (case cam_read c of
        Inl e \<Rightarrow> (Inl e, [Call (VideoCapture 0 True), Fail CamRead e])
      | Inr (ok, frame) \<Rightarrow>
     (case cam_release c of
        Inl e \<Rightarrow> (Inl e, [Call (VideoCapture 0 True), Call CamRead, Fail CamRelease e])
      | Inr u \<Rightarrow>
          if \<not> ok then
            (Inl (RuntimeError cam_read_msg),
             [Call (VideoCapture 0 True), Call CamRead, Call CamRelease])
          else
     (case cam_imencode c frame of
        Inl e \<Rightarrow>
          (Inl e,
           [Call (VideoCapture 0 True), Call CamRead, Call CamRelease,
            Fail (Imencode ''.jpg'' frame) e])
      | Inr (ok', encoded) \<Rightarrow>
          (if \<not> ok' then Inl (RuntimeError cam_encode_msg) else Inr (b64encode encoded),
           [Call (VideoCapture 0 True), Call CamRead, Call CamRelease,
            Call (Imencode ''.jpg'' frame)])))))"
  by (simp add: capture_webcam_frame_def opened_flag_def io_simps call_def bind_def
      split: sum.splits prod.splits)

text \<open>
  Claim C5, as stated, fails. The function has no \<open>try\<close>: an exception raised by an
  OpenCV call leaves it at once. Here the device opens and the operator presses Ctrl+C
  while \<open>cam.read()\<close> waits for the frame: the call ends with \<open>KeyboardInterrupt\<close>, which
  is none of the three descriptive errors, no frame is returned, \<open>cam.release()\<close> is not
  reached, and the handle that the call acquired is still held.
\<close>

theorem capture_leaks_counterexample:
  "cam_open interrupted_camera = Inr True
   \<and> capture_webcam_frame interrupted_camera =
       (Inl KeyboardInterrupt, [Call (VideoCapture 0 True), Fail CamRead KeyboardInterrupt])
   \<and> open_handles 0 (snd (capture_webcam_frame interrupted_camera)) = 1"
  by (simp add: capture_unfold interrupted_camera_def good_camera_def)

text \<open>
  Claim C5, amended. When the OpenCV calls return, \<open>capture_webcam_frame\<close> raises a
  \<open>RuntimeError\<close> with a message naming the failure in three cases: the camera at index
  0 did not open, the read of the frame reported failure, the JPEG encoding reported
  failure. In the remaining case it returns the base64 text of the encoded JPEG bytes.
  In these four cases the camera handles held after the call are those held before it:
  a handle the call acquired was released by the call. When an OpenCV call raises, the
  function raises that exception.
\<close>

theorem capture_webcam_frame_contract:
  "(cam_open c = Inr False \<longrightarrow>
      fst (capture_webcam_frame c) =
        Inl (RuntimeError (''No se pudo abrir la webcam ('' @ [CHR 0xC3, CHR 0xAD] @ ''ndice 0).''))
      \<and> open_handles h (snd (capture_webcam_frame c)) = h)
   \<and> (cam_open c = Inr True \<and> cam_read c = Inr (False, frame) \<and> cam_release c = Inr () \<longrightarrow>
      fst (capture_webcam_frame c) =
        Inl (RuntimeError ''No se pudo capturar un frame de la webcam.'')
      \<and> open_handles h (snd (capture_webcam_frame c)) = h)
   \<and> (cam_open c = Inr True \<and> cam_read c = Inr (True, frame) \<and> cam_release c = Inr () \<and>
       cam_imencode c frame = Inr (False, encoded) \<longrightarrow>
      fst (capture_webcam_frame c) =
        Inl (RuntimeError ''No se pudo codificar la imagen como JPEG.'')
      \<and> open_handles h (snd (capture_webcam_frame c)) = h)
   \<and> (cam_open c = Inr True \<and> cam_read c = Inr (True, frame) \<and> cam_release c = Inr () \<and>
       cam_imencode c frame = Inr (True, encoded) \<longrightarrow>
      fst (capture_webcam_frame c) = Inr (b64encode encoded)
      \<and> open_handles h (snd (capture_webcam_frame c)) = h)
   \<and> (cam_open c = Inl e \<longrightarrow> fst (capture_webcam_frame c) = Inl e)
   \<and> (cam_open c = Inr True \<and> cam_read c = Inl e \<longrightarrow> fst (capture_webcam_frame c) = Inl e)
   \<and> (cam_open c = Inr True \<and> cam_read c = Inr (ok, frame) \<and> cam_release c = Inl e \<longrightarrow>
      fst (capture_webcam_frame c) = Inl e)
   \<and> (cam_open c = Inr True \<and> cam_read c = Inr (True, frame) \<and> cam_release c = Inr () \<and>
       cam_imencode c frame = Inl e \<longrightarrow>
      fst (capture_webcam_frame c) = Inl e)"
  by (simp add: capture_unfold cam_open_msg_def cam_read_msg_def cam_encode_msg_def)

theorem capture_webcam_frame_contract_witness:
  "fst (capture_webcam_frame good_camera) = Inr ''/9gBAgM=''
   \<and> open_handles 0 (snd (capture_webcam_frame good_camera)) = 0
   \<and> fst (capture_webcam_frame (good_camera\<lparr>cam_open := Inr False\<rparr>)) =
        Inl (RuntimeError (''No se pudo abrir la webcam ('' @ [CHR 0xC3, CHR 0xAD] @ ''ndice 0).''))
   \<and> open_handles 0 (snd (capture_webcam_frame (good_camera\<lparr>cam_open := Inr False\<rparr>))) = 0
   \<and> fst (capture_webcam_frame (good_camera\<lparr>cam_read := Inr (False, [])\<rparr>)) =
        Inl (RuntimeError ''No se pudo capturar un frame de la webcam.'')
   \<and> open_handles 0 (snd (capture_webcam_frame (good_camera\<lparr>cam_read := Inr (False, [])\<rparr>))) = 0
   \<and> fst (capture_webcam_frame (good_camera\<lparr>cam_imencode := (\<lambda>frame. Inr (False, []))\<rparr>)) =
        Inl (RuntimeError ''No se pudo codificar la imagen como JPEG.'')
   \<and> open_handles 0
        (snd (capture_webcam_frame (good_camera\<lparr>cam_imencode := (\<lambda>frame. Inr (False, []))\<rparr>))) = 0
   \<and> fst (capture_webcam_frame (good_camera\<lparr>cam_open := Inl (LibraryError ''busy'')\<rparr>)) =
        Inl (LibraryError ''busy'')
   \<and> fst (capture_webcam_frame (good_camera\<lparr>cam_read := Inl (LibraryError ''busy'')\<rparr>)) =
        Inl (LibraryError ''busy'')
   \<and> fst (capture_webcam_frame (good_camera\<lparr>cam_release := Inl (LibraryError ''busy'')\<rparr>)) =
        Inl (LibraryError ''busy'')
   \<and> fst (capture_webcam_frame
        (good_camera\<lparr>cam_imencode := (\<lambda>frame. Inl (LibraryError ''busy''))\<rparr>)) =
        Inl (LibraryError ''busy'')"
proof -
  let ?e = "LibraryError ''busy''"
  have img: "b64encode [0xFF, 0xD8, 1, 2, 3] = ''/9gBAgM=''"
    by (simp add: b64_char_def b64_alphabet_def)
  note a = capture_webcam_frame_contract
    [where c = good_camera and h = 0 and frame = "[1, 2, 3]"
       and encoded = "[0xFF, 0xD8, 1, 2, 3]" and e = ?e and ok = True]
  note b = capture_webcam_frame_contract
    [where c = "good_camera\<lparr>cam_open := Inr False\<rparr>" and h = 0 and frame = "[]"
       and encoded = "[]" and e = ?e and ok = True]
  note c = capture_webcam_frame_contract
    [where c = "good_camera\<lparr>cam_read := Inr (False, [])\<rparr>" and h = 0 and frame = "[]"
       and encoded = "[]" and e = ?e and ok = True]
  note d = capture_webcam_frame_contract
    [where c = "good_camera\<lparr>cam_imencode := (\<lambda>frame. Inr (False, []))\<rparr>" and h = 0
       and frame = "[1, 2, 3]" and encoded = "[]" and e = ?e and ok = True]
  note f = capture_webcam_frame_contract
    [where c = "good_camera\<lparr>cam_open := Inl ?e\<rparr>" and h = 0 and frame = "[]"
       and encoded = "[]" and e = ?e and ok = True]
  note g = capture_webcam_frame_contract
    [where c = "good_camera\<lparr>cam_read := Inl ?e\<rparr>" and h = 0 and frame = "[]"
       and encoded = "[]" and e = ?e and ok = True]
  note i = capture_webcam_frame_contract
    [where c = "good_camera\<lparr>cam_release := Inl ?e\<rparr>" and h = 0 and frame = "[1, 2, 3]"
       and encoded = "[]" and e = ?e and ok = True]
  note j = capture_webcam_frame_contract
    [where c = "good_camera\<lparr>cam_imencode := (\<lambda>frame. Inl ?e)\<rparr>" and h = 0
       and frame = "[1, 2, 3]" and encoded = "[]" and e = ?e and ok = True]
  have c4: "fst (capture_webcam_frame good_camera) = Inr ''/9gBAgM=''
      \<and> open_handles 0 (snd (capture_webcam_frame good_camera)) = 0"
    using a [THEN conjunct2, THEN conjunct2, THEN conjunct2, THEN conjunct1] img
    by (simp add: good_camera_def)
  have c1: "fst (capture_webcam_frame (good_camera\<lparr>cam_open := Inr False\<rparr>)) =
        Inl (RuntimeError (''No se pudo abrir la webcam ('' @ [CHR 0xC3, CHR 0xAD] @ ''ndice 0).''))
      \<and> open_handles 0 (snd (capture_webcam_frame (good_camera\<lparr>cam_open := Inr False\<rparr>))) = 0"
    using b [THEN conjunct1] by simp
  have c2: "fst (capture_webcam_frame (good_camera\<lparr>cam_read := Inr (False, [])\<rparr>)) =
        Inl (RuntimeError ''No se pudo capturar un frame de la webcam.'')
      \<and> open_handles 0 (snd (capture_webcam_frame (good_camera\<lparr>cam_read := Inr (False, [])\<rparr>))) = 0"
    using c [THEN conjunct2, THEN conjunct1] by (simp add: good_camera_def)
  have c3: "fst (capture_webcam_frame (good_camera\<lparr>cam_imencode := (\<lambda>frame. Inr (False, []))\<rparr>)) =
        Inl (RuntimeError ''No se pudo codificar la imagen como JPEG.'')
      \<and> open_handles 0
        (snd (capture_webcam_frame (good_camera\<lparr>cam_imencode := (\<lambda>frame. Inr (False, []))\<rparr>))) = 0"
    using d [THEN conjunct2, THEN conjunct2, THEN conjunct1] by (simp add: good_camera_def)
  have c5: "fst (capture_webcam_frame (good_camera\<lparr>cam_open := Inl ?e\<rparr>)) = Inl ?e"
    using f [THEN conjunct2, THEN conjunct2, THEN conjunct2, THEN conjunct2, THEN conjunct1]
    by simp
  have c6: "fst (capture_webcam_frame (good_camera\<lparr>cam_read := Inl ?e\<rparr>)) = Inl ?e"
    using g [THEN conjunct2, THEN conjunct2, THEN conjunct2, THEN conjunct2, THEN conjunct2,
        THEN conjunct1]
    by (simp add: good_camera_def)
  have c7: "fst (capture_webcam_frame (good_camera\<lparr>cam_release := Inl ?e\<rparr>)) = Inl ?e"
    using i [THEN conjunct2, THEN conjunct2, THEN conjunct2, THEN conjunct2, THEN conjunct2,
        THEN conjunct2, THEN conjunct1]
    by (simp add: good_camera_def)
  have c8: "fst (capture_webcam_frame (good_camera\<lparr>cam_imencode := (\<lambda>frame. Inl ?e)\<rparr>)) = Inl ?e"
    using j [THEN conjunct2, THEN conjunct2, THEN conjunct2, THEN conjunct2, THEN conjunct2,
        THEN conjunct2, THEN conjunct2]
    by (simp add: good_camera_def)
  from c4 c1 c2 c3 c5 c6 c7 c8 show ?thesis
    by blast
qed

subsection \<open>The reply generator\<close>

text \<open>
  Claim C3. For every frame, every transcript and every answer of the service,
  \<open>generate_goofy_reply\<close> makes exactly one completion call, with the request built from
  the frame and the transcript. When the transcript is the empty string, the text part of
  the user message quotes the placeholder \<open>[sin audio claro]\<close>, which is not the text with
  an empty pair of quotes; when the transcript is not empty, the text part quotes the
  transcript itself. The second part of the user message is the frame as a data URL.
\<close>

theorem generate_goofy_reply_prompt:
  "map event_action (snd (generate_goofy_reply frame transcript completion)) =
     [Completion (reply_request frame transcript)]
   \<and> map content (messages (reply_request frame [])) =
       [Plain GOOFY_SYSTEM_PROMPT,
        Parts [TextPart (''Este es el contexto del micr'' @ [CHR 0xC3, CHR 0xB3] @
                 ''fono transcrito: '' @ [CHR 0x27] @ ''[sin audio claro]'' @ [CHR 0x27] @
                 ''. Describe qu'' @ [CHR 0xC3, CHR 0xA9] @ '' est'' @ [CHR 0xC3, CHR 0xA1] @
                 '' pasando como una c'' @ [CHR 0xC3, CHR 0xA1] @ ''mara de seguridad c'' @
                 [CHR 0xC3, CHR 0xB3] @ ''mica.''),
               ImageUrlPart (''data:image/jpeg;base64,'' @ frame)]]
   \<and> user_text [] \<noteq>
       ''Este es el contexto del micr'' @ [CHR 0xC3, CHR 0xB3] @
       ''fono transcrito: '' @ [CHR 0x27] @ [] @ [CHR 0x27] @
       ''. Describe qu'' @ [CHR 0xC3, CHR 0xA9] @ '' est'' @ [CHR 0xC3, CHR 0xA1] @
       '' pasando como una c'' @ [CHR 0xC3, CHR 0xA1] @ ''mara de seguridad c'' @
       [CHR 0xC3, CHR 0xB3] @ ''mica.''
   \<and> map content (messages (reply_request frame (c # cs))) =
       [Plain GOOFY_SYSTEM_PROMPT,
        Parts [TextPart (''Este es el contexto del micr'' @ [CHR 0xC3, CHR 0xB3] @
                 ''fono transcrito: '' @ [CHR 0x27] @ (c # cs) @ [CHR 0x27] @
                 ''. Describe qu'' @ [CHR 0xC3, CHR 0xA9] @ '' est'' @ [CHR 0xC3, CHR 0xA1] @
                 '' pasando como una c'' @ [CHR 0xC3, CHR 0xA1] @ ''mara de seguridad c'' @
                 [CHR 0xC3, CHR 0xB3] @ ''mica.''),
               ImageUrlPart (''data:image/jpeg;base64,'' @ frame)]]"
  by (cases completion)
     (simp_all add: generate_goofy_reply_def io_simps event_action_def reply_request_def
        user_content_def user_text_def py_or_def no_audio_placeholder_def
        split: list.splits option.splits)

theorem generate_goofy_reply_prompt_witness:
  "snd (generate_goofy_reply ''QUJD'' ''hola'' (Inr [Some ''jaja''])) =
     [Call (Completion (reply_request ''QUJD'' ''hola''))]
   \<and> user_text ''hola'' =
       ''Este es el contexto del micr'' @ [CHR 0xC3, CHR 0xB3] @
       ''fono transcrito: '' @ [CHR 0x27] @ ''hola'' @ [CHR 0x27] @
       ''. Describe qu'' @ [CHR 0xC3, CHR 0xA9] @ '' est'' @ [CHR 0xC3, CHR 0xA1] @
       '' pasando como una c'' @ [CHR 0xC3, CHR 0xA1] @ ''mara de seguridad c'' @
       [CHR 0xC3, CHR 0xB3] @ ''mica.''"
  using generate_goofy_reply_prompt [of "''QUJD''" "''hola''" "Inr [Some ''jaja'']" "CHR ''h''" "''ola''"]
  by (simp add: generate_goofy_reply_def io_simps reply_request_def user_content_def
        user_text_def py_or_def)

subsection \<open>Start-up\<close>

lemma getenv_simp: "getenv env name = (Inr (env name), [Call (GetEnv name)])"
  by (simp add: getenv_def io_simps)

lemma getenv_default_simp:
  "getenv_default env name d =
     (Inr (case env name of None \<Rightarrow> d | Some v \<Rightarrow> v), [Call (GetEnv name)])"
  by (simp add: getenv_default_def io_simps)

lemma startup_no_gemini:
  "py_not (env ''GEMINI_API_KEY'') \<Longrightarrow>
   startup bt env =
     (Inl (RuntimeError gemini_missing_msg), [Call LoadDotenv, Call (GetEnv ''GEMINI_API_KEY'')])"
  by (simp add: startup_def getenv_simp io_simps)

lemma startup_no_elevenlabs:
  "\<not> py_not (env ''GEMINI_API_KEY'') \<Longrightarrow> py_not (env ''ELEVENLABS_API_KEY'') \<Longrightarrow>
   startup bt env =
     (Inl (RuntimeError elevenlabs_missing_msg),
      [Call LoadDotenv, Call (GetEnv ''GEMINI_API_KEY''), Call (GetEnv ''ELEVENLABS_API_KEY'')])"
  by (simp add: startup_def getenv_simp io_simps)

lemma startup_bad_delay:
  "\<not> py_not (env ''GEMINI_API_KEY'') \<Longrightarrow> \<not> py_not (env ''ELEVENLABS_API_KEY'') \<Longrightarrow>
   py_float (unicode_float bt) (delay_text env) = Inl e \<Longrightarrow>
   startup bt env = (Inl e, env_reads)"
  by (simp add: startup_def getenv_simp getenv_default_simp io_simps delay_text_def env_reads_def)

lemma startup_no_banner:
  "\<not> py_not (env ''GEMINI_API_KEY'') \<Longrightarrow> \<not> py_not (env ''ELEVENLABS_API_KEY'') \<Longrightarrow>
   py_float (unicode_float bt) (delay_text env) = Inr d \<Longrightarrow> banner_print bt = Inl e \<Longrightarrow>
   startup bt env = (Inl e, env_reads @ [Fail (Print started_banner) e])"
  by (simp add: startup_def getenv_simp getenv_default_simp io_simps delay_text_def env_reads_def)

lemma startup_ok:
  "\<not> py_not (env ''GEMINI_API_KEY'') \<Longrightarrow> \<not> py_not (env ''ELEVENLABS_API_KEY'') \<Longrightarrow>
   py_float (unicode_float bt) (delay_text env) = Inr d \<Longrightarrow> banner_print bt = Inr u \<Longrightarrow>
   startup bt env =
     (Inr (initial_locals (voice_text env) d), env_reads @ [Call (Print started_banner)])"
  by (simp add: startup_def getenv_simp getenv_default_simp io_simps delay_text_def env_reads_def
      voice_text_def initial_locals_def)

lemma py_float_one: "py_float beyond ''1.0'' = Inr (Finite 1)"
  by (simp add: py_float_def is_ascii_def ascii_float_def float_strip_def
      c_isspace_def is_digit_def parse_decimal_def take_sign_def scale10_def nat_of_digits_def
      digit_val_def)

lemma py_float_abc: "py_float beyond ''abc'' = Inl (float_error ''abc'')"
  by (simp add: py_float_def is_ascii_def ascii_float_def float_strip_def
      c_isspace_def is_digit_def parse_decimal_def take_sign_def parse_inf_or_nan_def
      ascii_lower_def)

lemma float_error_abc:
  "float_error ''abc'' =
     ValueError (''could not convert string to float: '' @ [CHR 0x27] @ ''abc'' @ [CHR 0x27])"
  by (simp add: float_error_def py_repr_def repr_char_def Let_def)

lemma main_startup_error:
  "startup bt (load_dotenv dotenv environ) = (Inl e, es) \<Longrightarrow>
   main bt dotenv environ ws = (Uncaught e, es)"
  by (simp add: main_def)

lemma main_startup_ok:
  "startup bt (load_dotenv dotenv environ) = (Inr lv, es) \<Longrightarrow>
   main bt dotenv environ ws = after es (loop (load_dotenv dotenv environ) lv ws)"
  by (simp add: main_def)

text \<open>
  Claim C10. When both credentials are set and not empty and \<open>LOOP_DELAY_SECONDS\<close> is set
  to a string that \<open>float\<close> rejects, \<open>main\<close> ends with the uncaught exception of the
  conversion. Up to then it has only loaded the \<^verbatim>\<open>.env\<close> file and read the four
  variables, the two credentials first: no banner was printed, no step was started, and
  no default delay took the place of the bad value.
\<close>

theorem invalid_delay_is_fatal:
  assumes "\<not> py_not (load_dotenv dotenv environ ''GEMINI_API_KEY'')"
    and "\<not> py_not (load_dotenv dotenv environ ''ELEVENLABS_API_KEY'')"
    and "load_dotenv dotenv environ ''LOOP_DELAY_SECONDS'' = Some s"
    and "py_float (unicode_float bt) s = Inl e"
  shows "main bt dotenv environ ws =
           (Uncaught e,
            [Call LoadDotenv, Call (GetEnv ''GEMINI_API_KEY''),
             Call (GetEnv ''ELEVENLABS_API_KEY''), Call (GetEnv ''ELEVENLABS_VOICE_ID''),
             Call (GetEnv ''LOOP_DELAY_SECONDS'')])"
proof -
  have "py_float (unicode_float bt) (delay_text (load_dotenv dotenv environ)) = Inl e"
    using assms(3,4) by (simp add: delay_text_def)
  then have "startup bt (load_dotenv dotenv environ) = (Inl e, env_reads)"
    using assms(1,2) by (rule startup_bad_delay [rotated 2])
  then show ?thesis
    by (simp add: main_startup_error env_reads_def)
qed

theorem invalid_delay_is_fatal_witness:
  "py_float (unicode_float good_boot) ''abc'' =
     Inl (ValueError (''could not convert string to float: '' @ [CHR 0x27] @ ''abc'' @ [CHR 0x27]))
   \<and> main good_boot Map.empty (both_keys(''LOOP_DELAY_SECONDS'' \<mapsto> ''abc'')) [good_world] =
     (Uncaught (ValueError
        (''could not convert string to float: '' @ [CHR 0x27] @ ''abc'' @ [CHR 0x27])),
      [Call LoadDotenv, Call (GetEnv ''GEMINI_API_KEY''),
       Call (GetEnv ''ELEVENLABS_API_KEY''), Call (GetEnv ''ELEVENLABS_VOICE_ID''),
       Call (GetEnv ''LOOP_DELAY_SECONDS'')])"
  using invalid_delay_is_fatal [of Map.empty "both_keys(''LOOP_DELAY_SECONDS'' \<mapsto> ''abc'')"
      "''abc''" good_boot "float_error ''abc''" "[good_world]"]
  by (simp add: load_dotenv_def both_keys_def py_not_def py_float_abc float_error_abc)

text \<open>
  Claim C1, as stated, fails in its last part: with both credentials present, start-up
  does not always reach the loop. In the first run both are set, \<open>LOOP_DELAY_SECONDS\<close> is
  \<open>abc\<close>, and \<open>main\<close> ends with a \<open>ValueError\<close> before the banner. In the second run both
  are set, the delay is the default, and the \<open>print\<close> of the banner raises: \<open>main\<close> ends
  with that exception, and the iteration that the world had ready is not started.
\<close>

theorem credentials_present_counterexample:
  "load_dotenv Map.empty (both_keys(''LOOP_DELAY_SECONDS'' \<mapsto> ''abc'')) ''GEMINI_API_KEY'' =
     Some ''g-key''
   \<and> load_dotenv Map.empty (both_keys(''LOOP_DELAY_SECONDS'' \<mapsto> ''abc''))
        ''ELEVENLABS_API_KEY'' = Some ''e-key''
   \<and> fst (main good_boot Map.empty (both_keys(''LOOP_DELAY_SECONDS'' \<mapsto> ''abc''))
        [good_world]) =
        Uncaught (ValueError
          (''could not convert string to float: '' @ [CHR 0x27] @ ''abc'' @ [CHR 0x27]))
   \<and> Call (Print started_banner) \<notin>
        set (snd (main good_boot Map.empty (both_keys(''LOOP_DELAY_SECONDS'' \<mapsto> ''abc''))
          [good_world]))
   \<and> snd (main good_boot Map.empty (both_keys(''LOOP_DELAY_SECONDS'' \<mapsto> ''abc''))
        [good_world]) =
        [Call LoadDotenv, Call (GetEnv ''GEMINI_API_KEY''),
         Call (GetEnv ''ELEVENLABS_API_KEY''), Call (GetEnv ''ELEVENLABS_VOICE_ID''),
         Call (GetEnv ''LOOP_DELAY_SECONDS'')]
   \<and> load_dotenv Map.empty both_keys ''GEMINI_API_KEY'' = Some ''g-key''
   \<and> load_dotenv Map.empty both_keys ''ELEVENLABS_API_KEY'' = Some ''e-key''
   \<and> main closed_stdout_boot Map.empty both_keys [good_world] =
        (Uncaught (LibraryError ''[Errno 32] Broken pipe''),
         [Call LoadDotenv, Call (GetEnv ''GEMINI_API_KEY''),
          Call (GetEnv ''ELEVENLABS_API_KEY''), Call (GetEnv ''ELEVENLABS_VOICE_ID''),
          Call (GetEnv ''LOOP_DELAY_SECONDS''),
          Fail (Print started_banner) (LibraryError ''[Errno 32] Broken pipe'')])"
proof -
  let ?env = "load_dotenv Map.empty (both_keys(''LOOP_DELAY_SECONDS'' \<mapsto> ''abc''))"
  let ?env' = "load_dotenv Map.empty both_keys"
  have g: "?env ''GEMINI_API_KEY'' = Some ''g-key''"
    and e: "?env ''ELEVENLABS_API_KEY'' = Some ''e-key''"
    and d: "delay_text ?env = ''abc''"
    and g': "?env' ''GEMINI_API_KEY'' = Some ''g-key''"
    and e': "?env' ''ELEVENLABS_API_KEY'' = Some ''e-key''"
    and d': "delay_text ?env' = ''1.0''"
    by (simp_all add: load_dotenv_def both_keys_def delay_text_def)
  have "startup good_boot ?env = (Inl (float_error ''abc''), env_reads)"
    by (rule startup_bad_delay) (simp_all add: g e d py_not_def py_float_abc)
  then have first: "main good_boot Map.empty (both_keys(''LOOP_DELAY_SECONDS'' \<mapsto> ''abc''))
      [good_world] = (Uncaught (float_error ''abc''), env_reads)"
    by (rule main_startup_error)
  have "startup closed_stdout_boot ?env' =
      (Inl (LibraryError ''[Errno 32] Broken pipe''),
       env_reads @ [Fail (Print started_banner) (LibraryError ''[Errno 32] Broken pipe'')])"
    by (rule startup_no_banner [where d = "Finite 1"])
       (simp_all add: g' e' d' py_not_def py_float_one closed_stdout_boot_def)
  then have second: "main closed_stdout_boot Map.empty both_keys [good_world] =
      (Uncaught (LibraryError ''[Errno 32] Broken pipe''),
       env_reads @ [Fail (Print started_banner) (LibraryError ''[Errno 32] Broken pipe'')])"
    by (rule main_startup_error)
  from first second show ?thesis
    using g e g' e' by (simp add: env_reads_def float_error_abc)
qed

text \<open>
  Claim C1, amended. The source's test \<open>not os.getenv(name)\<close> (\<open>py_not\<close>) holds for a
  variable that is unset and for one set to the empty string. If it holds for
  \<open>GEMINI_API_KEY\<close>, or else for \<open>ELEVENLABS_API_KEY\<close>, \<open>main\<close> ends with the
  \<open>RuntimeError\<close> naming the variable, after the environment reads alone: no banner and
  no step. If it holds for neither, \<open>float\<close> accepts the delay text (the value of
  \<open>LOOP_DELAY_SECONDS\<close>, or \<open>1.0\<close>) and the \<open>print\<close> of the banner returns, start-up has
  printed the banner and the run goes on as the loop.
\<close>

theorem startup_credential_check:
  "(py_not (load_dotenv dotenv environ ''GEMINI_API_KEY'') \<longrightarrow>
      main bt dotenv environ ws =
        (Uncaught (RuntimeError ''Falta GEMINI_API_KEY en variables de entorno.''),
         [Call LoadDotenv, Call (GetEnv ''GEMINI_API_KEY'')]))
   \<and> (\<not> py_not (load_dotenv dotenv environ ''GEMINI_API_KEY'') \<and>
       py_not (load_dotenv dotenv environ ''ELEVENLABS_API_KEY'') \<longrightarrow>
      main bt dotenv environ ws =
        (Uncaught (RuntimeError ''Falta ELEVENLABS_API_KEY en variables de entorno.''),
         [Call LoadDotenv, Call (GetEnv ''GEMINI_API_KEY''), Call (GetEnv ''ELEVENLABS_API_KEY'')]))
   \<and> (\<not> py_not (load_dotenv dotenv environ ''GEMINI_API_KEY'') \<and>
       \<not> py_not (load_dotenv dotenv environ ''ELEVENLABS_API_KEY'') \<and>
       py_float (unicode_float bt) (delay_text (load_dotenv dotenv environ)) = Inr d \<and>
       banner_print bt = Inr () \<longrightarrow>
      main bt dotenv environ ws =
        after [Call LoadDotenv, Call (GetEnv ''GEMINI_API_KEY''),
               Call (GetEnv ''ELEVENLABS_API_KEY''), Call (GetEnv ''ELEVENLABS_VOICE_ID''),
               Call (GetEnv ''LOOP_DELAY_SECONDS''),
               Call (Print ([CHR 0xF0, CHR 0x9F, CHR 0xA4, CHR 0x96] @ '' C'' @
                 [CHR 0xC3, CHR 0xA1] @ ''mara IA graciosa iniciada. Ctrl+C para salir.''))]
          (loop (load_dotenv dotenv environ)
             (initial_locals (voice_text (load_dotenv dotenv environ)) d) ws))"
  by (simp add: main_def Let_def startup_no_gemini startup_no_elevenlabs startup_ok env_reads_def
      gemini_missing_msg_def elevenlabs_missing_msg_def started_banner_def)

theorem startup_credential_check_witness:
  "main good_boot Map.empty [''ELEVENLABS_API_KEY'' \<mapsto> ''e-key''] [good_world] =
     (Uncaught (RuntimeError ''Falta GEMINI_API_KEY en variables de entorno.''),
      [Call LoadDotenv, Call (GetEnv ''GEMINI_API_KEY'')])
   \<and> main good_boot Map.empty [''GEMINI_API_KEY'' \<mapsto> ''g-key'', ''ELEVENLABS_API_KEY'' \<mapsto> []]
        [good_world] =
     (Uncaught (RuntimeError ''Falta ELEVENLABS_API_KEY en variables de entorno.''),
      [Call LoadDotenv, Call (GetEnv ''GEMINI_API_KEY''), Call (GetEnv ''ELEVENLABS_API_KEY'')])
   \<and> main good_boot Map.empty both_keys [] =
     (Running,
      [Call LoadDotenv, Call (GetEnv ''GEMINI_API_KEY''),
       Call (GetEnv ''ELEVENLABS_API_KEY''), Call (GetEnv ''ELEVENLABS_VOICE_ID''),
       Call (GetEnv ''LOOP_DELAY_SECONDS''),
       Call (Print ([CHR 0xF0, CHR 0x9F, CHR 0xA4, CHR 0x96] @ '' C'' @
         [CHR 0xC3, CHR 0xA1] @ ''mara IA graciosa iniciada. Ctrl+C para salir.''))])
   \<and> main good_boot Map.empty (both_keys(''LOOP_DELAY_SECONDS'' \<mapsto> arabic_one)) [] =
     (Running,
      [Call LoadDotenv, Call (GetEnv ''GEMINI_API_KEY''),
       Call (GetEnv ''ELEVENLABS_API_KEY''), Call (GetEnv ''ELEVENLABS_VOICE_ID''),
       Call (GetEnv ''LOOP_DELAY_SECONDS''),
       Call (Print ([CHR 0xF0, CHR 0x9F, CHR 0xA4, CHR 0x96] @ '' C'' @
         [CHR 0xC3, CHR 0xA1] @ ''mara IA graciosa iniciada. Ctrl+C para salir.''))])"
proof -
  have f1: "py_float (unicode_float good_boot) (delay_text (load_dotenv Map.empty both_keys)) =
      Inr (Finite 1)"
    by (simp add: delay_text_def load_dotenv_def both_keys_def py_float_one)
  have f2: "py_float (unicode_float good_boot)
      (delay_text (load_dotenv Map.empty (both_keys(''LOOP_DELAY_SECONDS'' \<mapsto> arabic_one)))) =
      Inr (Finite 1)"
    by (simp add: delay_text_def load_dotenv_def py_float_def is_ascii_def arabic_one_def
        good_boot_def)
  have bp: "banner_print good_boot = Inr ()"
    by (simp add: good_boot_def)
  have k: "\<not> py_not (load_dotenv Map.empty both_keys ''GEMINI_API_KEY'')"
    "\<not> py_not (load_dotenv Map.empty both_keys ''ELEVENLABS_API_KEY'')"
    "\<not> py_not (load_dotenv Map.empty (both_keys(''LOOP_DELAY_SECONDS'' \<mapsto> arabic_one))
        ''GEMINI_API_KEY'')"
    "\<not> py_not (load_dotenv Map.empty (both_keys(''LOOP_DELAY_SECONDS'' \<mapsto> arabic_one))
        ''ELEVENLABS_API_KEY'')"
    by (simp_all add: load_dotenv_def both_keys_def py_not_def)
  have c1: "main good_boot Map.empty [''ELEVENLABS_API_KEY'' \<mapsto> ''e-key''] [good_world] =
     (Uncaught (RuntimeError ''Falta GEMINI_API_KEY en variables de entorno.''),
      [Call LoadDotenv, Call (GetEnv ''GEMINI_API_KEY'')])"
    using startup_credential_check [of Map.empty "[''ELEVENLABS_API_KEY'' \<mapsto> ''e-key'']"
        good_boot "[good_world]", THEN conjunct1]
    by (simp add: load_dotenv_def py_not_def)
  have c2: "main good_boot Map.empty
      [''GEMINI_API_KEY'' \<mapsto> ''g-key'', ''ELEVENLABS_API_KEY'' \<mapsto> []] [good_world] =
     (Uncaught (RuntimeError ''Falta ELEVENLABS_API_KEY en variables de entorno.''),
      [Call LoadDotenv, Call (GetEnv ''GEMINI_API_KEY''), Call (GetEnv ''ELEVENLABS_API_KEY'')])"
    using startup_credential_check [of Map.empty
        "[''GEMINI_API_KEY'' \<mapsto> ''g-key'', ''ELEVENLABS_API_KEY'' \<mapsto> []]" good_boot
        "[good_world]", THEN conjunct2, THEN conjunct1]
    by (simp add: load_dotenv_def py_not_def)
  have c3: "main good_boot Map.empty both_keys [] =
     (Running,
      [Call LoadDotenv, Call (GetEnv ''GEMINI_API_KEY''),
       Call (GetEnv ''ELEVENLABS_API_KEY''), Call (GetEnv ''ELEVENLABS_VOICE_ID''),
       Call (GetEnv ''LOOP_DELAY_SECONDS''),
       Call (Print ([CHR 0xF0, CHR 0x9F, CHR 0xA4, CHR 0x96] @ '' C'' @
         [CHR 0xC3, CHR 0xA1] @ ''mara IA graciosa iniciada. Ctrl+C para salir.''))])"
    using startup_credential_check [of Map.empty both_keys good_boot "[]" "Finite 1",
        THEN conjunct2, THEN conjunct2] k f1 bp
    by (simp add: after_def)
  have c4: "main good_boot Map.empty (both_keys(''LOOP_DELAY_SECONDS'' \<mapsto> arabic_one)) [] =
     (Running,
      [Call LoadDotenv, Call (GetEnv ''GEMINI_API_KEY''),
       Call (GetEnv ''ELEVENLABS_API_KEY''), Call (GetEnv ''ELEVENLABS_VOICE_ID''),
       Call (GetEnv ''LOOP_DELAY_SECONDS''),
       Call (Print ([CHR 0xF0, CHR 0x9F, CHR 0xA4, CHR 0x96] @ '' C'' @
         [CHR 0xC3, CHR 0xA1] @ ''mara IA graciosa iniciada. Ctrl+C para salir.''))])"
    using startup_credential_check [of Map.empty
        "both_keys(''LOOP_DELAY_SECONDS'' \<mapsto> arabic_one)" good_boot "[]" "Finite 1",
        THEN conjunct2, THEN conjunct2] k f2 bp
    by (simp add: after_def)
  from c1 c2 c3 c4 show ?thesis
    by blast
qed

subsection \<open>The steps as sequences of calls\<close>

lemma capture_nonempty: "snd (capture_webcam_frame c) \<noteq> []"
  by (simp add: capture_unfold split: sum.splits prod.splits)

lemma record_nonempty: "snd (record_microphone_wav n m) \<noteq> []"
  by (cases "rec_print m") (simp_all add: record_microphone_wav_def io_simps)

lemma transcribe_nonempty: "snd (transcribe_audio_with_gemini p t) \<noteq> []"
  by (cases "wav_bytes t") (simp_all add: transcribe_audio_with_gemini_def io_simps)

lemma generate_nonempty: "snd (generate_goofy_reply f t c) \<noteq> []"
  by (cases c) (simp_all add: generate_goofy_reply_def io_simps)

lemma speak_nonempty: "snd (speak_with_elevenlabs env r v s) \<noteq> []"
  by (cases "env ''ELEVENLABS_API_KEY''")
     (simp_all add: speak_with_elevenlabs_def environ_item_def io_simps)

lemma speak_returns:
  assumes "fst (speak_with_elevenlabs env text v s) = Inr u"
  shows "\<exists>key chunks path d sr.
           env ''ELEVENLABS_API_KEY'' = Some key \<and> tts_convert s = Inr chunks \<and>
           mp3_tempfile s = Inr path \<and> sf_read s = Inr (d, sr) \<and>
           snd (speak_with_elevenlabs env text v s) =
             [Call (GetEnv ''ELEVENLABS_API_KEY''), Call (ElevenLabs key),
              Call (TtsConvert v ''eleven_multilingual_v2'' text), Call (TempFile ''.mp3''),
              Call (WriteFile path (concat chunks)), Call (SfRead path ''float32''),
              Call (SdPlay d sr), Call SdWait]"
  using assms
  by (cases "env ''ELEVENLABS_API_KEY''"; cases "el_client s"; cases "tts_convert s";
      cases "mp3_tempfile s"; cases "mp3_write s"; cases "sf_read s"; cases "sd_play s";
      cases "sd_play_wait s")
     (auto simp: speak_with_elevenlabs_def environ_item_def io_simps call_def Let_def split: prod.splits)

lemmas steady_event_simps = steady_event_def event_action_def

lemma capture_steady: "list_all (steady_event env lv) (snd (capture_webcam_frame c))"
  by (simp add: capture_unfold steady_event_simps split: sum.splits prod.splits)

lemma record_steady: "list_all (steady_event env lv) (snd (record_microphone_wav n m))"
  by (cases "rec_print m"; cases "sd_rec m"; cases "sd_rec_wait m"; cases "wav_tempfile m";
      cases "sf_write m")
     (simp_all add: record_microphone_wav_def io_simps steady_event_simps)

lemma transcribe_steady:
  "list_all (steady_event env lv) (snd (transcribe_audio_with_gemini p t))"
  by (cases "wav_bytes t"; cases "transcription t")
     (simp_all add: transcribe_audio_with_gemini_def io_simps steady_event_simps)

lemma generate_steady: "list_all (steady_event env lv) (snd (generate_goofy_reply f t c))"
  by (cases c)
     (simp_all add: generate_goofy_reply_def io_simps steady_event_simps
        split: list.splits option.splits)

lemma speak_steady:
  "list_all (steady_event env lv) (snd (speak_with_elevenlabs env r (voice_id lv) s))"
  by (cases "env ''ELEVENLABS_API_KEY''"; cases "el_client s"; cases "tts_convert s";
      cases "mp3_tempfile s"; cases "mp3_write s"; cases "sf_read s"; cases "sd_play s";
      cases "sd_play_wait s")
     (auto simp: speak_with_elevenlabs_def environ_item_def io_simps call_def Let_def
        steady_event_simps split: prod.splits)

subsection \<open>One iteration\<close>

text \<open>
  The body of the \<open>try\<close> with its statements run one after the other: each step gets the
  values the steps before it returned in this iteration, and a local variable is read
  only after the iteration has assigned it.
\<close>

lemma try_body_unfold:
  "try_body env w lv =
     (case capture_webcam_frame (w_camera w) of
        (Inl e, es1) \<Rightarrow> (Some e, lv, es1)
      | (Inr f, es1) \<Rightarrow>
     (case record_microphone_wav AUDIO_SECONDS (w_microphone w) of
        (Inl e, es2) \<Rightarrow> (Some e, lv\<lparr>frame_b64 := Some f\<rparr>, es1 @ es2)
      | (Inr p, es2) \<Rightarrow>
     (case transcribe_audio_with_gemini p (w_transcriber w) of
        (Inl e, es3) \<Rightarrow> (Some e, lv\<lparr>frame_b64 := Some f, wav_path := Some p\<rparr>, es1 @ es2 @ es3)
      | (Inr t, es3) \<Rightarrow>
     (case w_transcript_print w of
        Inl e \<Rightarrow>
          (Some e, lv\<lparr>frame_b64 := Some f, wav_path := Some p, transcript_text := Some t\<rparr>,
           es1 @ es2 @ es3 @ [Fail (Print (transcript_msg t)) e])
      | Inr u1 \<Rightarrow>
     (case generate_goofy_reply f t (w_completion w) of
        (Inl e, es4) \<Rightarrow>
          (Some e, lv\<lparr>frame_b64 := Some f, wav_path := Some p, transcript_text := Some t\<rparr>,
           es1 @ es2 @ es3 @ [Call (Print (transcript_msg t))] @ es4)
      | (Inr r, es4) \<Rightarrow>
     (case w_reply_print w of
        Inl e \<Rightarrow>
          (Some e,
           lv\<lparr>frame_b64 := Some f, wav_path := Some p, transcript_text := Some t,
              reply := Some r\<rparr>,
           es1 @ es2 @ es3 @ [Call (Print (transcript_msg t))] @ es4 @
           [Fail (Print (reply_msg r)) e])
      | Inr u2 \<Rightarrow>
     (case speak_with_elevenlabs env r (voice_id lv) (w_speaker w) of
        (Inl e, es5) \<Rightarrow>
          (Some e,
           lv\<lparr>frame_b64 := Some f, wav_path := Some p, transcript_text := Some t,
              reply := Some r\<rparr>,
           es1 @ es2 @ es3 @ [Call (Print (transcript_msg t))] @ es4 @
           [Call (Print (reply_msg r))] @ es5)
      | (Inr u, es5) \<Rightarrow>
     (case w_delay_sleep w of
        Inl e \<Rightarrow>
          (Some e,
           lv\<lparr>frame_b64 := Some f, wav_path := Some p, transcript_text := Some t,
              reply := Some r\<rparr>,
           es1 @ es2 @ es3 @ [Call (Print (transcript_msg t))] @ es4 @
           [Call (Print (reply_msg r))] @ es5 @ [Fail (Sleep (loop_delay lv)) e])
      | Inr u' \<Rightarrow>
          (None,
           lv\<lparr>frame_b64 := Some f, wav_path := Some p, transcript_text := Some t,
              reply := Some r\<rparr>,
           es1 @ es2 @ es3 @ [Call (Print (transcript_msg t))] @ es4 @
           [Call (Print (reply_msg r))] @ es5 @ [Call (Sleep (loop_delay lv))])))))))))"
proof -
  note defs = try_body_def seq_def assign_def exec_def load_def call_def
  obtain r1 es1 where s1: "capture_webcam_frame (w_camera w) = (r1, es1)"
    by (cases "capture_webcam_frame (w_camera w)")
  show ?thesis
  proof (cases r1)
    case (Inl e)
    with s1 show ?thesis by (simp add: defs)
  next
    case f: (Inr f)
    obtain r2 es2 where s2: "record_microphone_wav AUDIO_SECONDS (w_microphone w) = (r2, es2)"
      by (cases "record_microphone_wav AUDIO_SECONDS (w_microphone w)")
    show ?thesis
    proof (cases r2)
      case (Inl e)
      with s1 f s2 show ?thesis by (simp add: defs)
    next
      case p: (Inr p)
      obtain r3 es3 where s3: "transcribe_audio_with_gemini p (w_transcriber w) = (r3, es3)"
        by (cases "transcribe_audio_with_gemini p (w_transcriber w)")
      show ?thesis
      proof (cases r3)
        case (Inl e)
        with s1 f s2 p s3 show ?thesis by (simp add: defs)
      next
        case t: (Inr t)
        show ?thesis
        proof (cases "w_transcript_print w")
          case (Inl e)
          with s1 f s2 p s3 t show ?thesis by (simp add: defs)
        next
          case u1: (Inr u1)
          obtain r4 es4 where s4: "generate_goofy_reply f t (w_completion w) = (r4, es4)"
            by (cases "generate_goofy_reply f t (w_completion w)")
          show ?thesis
          proof (cases r4)
            case (Inl e)
            with s1 f s2 p s3 t u1 s4 show ?thesis by (simp add: defs)
          next
            case r: (Inr r)
            show ?thesis
            proof (cases "w_reply_print w")
              case (Inl e)
              with s1 f s2 p s3 t u1 s4 r show ?thesis by (simp add: defs)
            next
              case u2: (Inr u2)
              obtain r5 es5 where
                s5: "speak_with_elevenlabs env r (voice_id lv) (w_speaker w) = (r5, es5)"
                by (cases "speak_with_elevenlabs env r (voice_id lv) (w_speaker w)")
              show ?thesis
              proof (cases r5)
                case (Inl e)
                with s1 f s2 p s3 t u1 s4 r u2 s5 show ?thesis by (simp add: defs)
              next
                case u: (Inr u)
                show ?thesis
                proof (cases "w_delay_sleep w")
                  case (Inl e)
                  with s1 f s2 p s3 t u1 s4 r u2 s5 u show ?thesis by (simp add: defs)
                next
                  case (Inr u')
                  with s1 f s2 p s3 t u1 s4 r u2 s5 u show ?thesis by (simp add: defs)
                qed
              qed
            qed
          qed
        qed
      qed
    qed
  qed
qed

lemma try_body_keeps_config: "same_config lv (fst (snd (try_body env w lv)))"
  by (simp add: try_body_unfold same_config_def split: prod.splits sum.splits)

lemma try_body_same_config:
  assumes "same_config lv lv'"
  shows "fst (try_body env w lv') = fst (try_body env w lv)"
    and "snd (snd (try_body env w lv')) = snd (snd (try_body env w lv))"
  using assms
  by (simp_all add: try_body_unfold same_config_def split: prod.splits sum.splits)

lemma loop_same_config: "same_config lv lv' \<Longrightarrow> loop env lv' ws = loop env lv ws"
proof (induction ws arbitrary: lv lv')
  case Nil
  show ?case by simp
next
  case (Cons w ws)
  obtain r l es where b: "try_body env w lv = (r, l, es)"
    by (cases "try_body env w lv")
  obtain r' l' es' where b': "try_body env w lv' = (r', l', es')"
    by (cases "try_body env w lv'")
  have eq: "r' = r" "es' = es"
    using try_body_same_config [OF Cons.prems, of env w] b b' by simp_all
  have "same_config lv l" "same_config lv' l'"
    using try_body_keeps_config [of lv env w] try_body_keeps_config [of lv' env w] b b'
    by simp_all
  then have "same_config l l'"
    using Cons.prems by (simp add: same_config_def)
  then have "loop env l' ws = loop env l ws"
    by (rule Cons.IH)
  then show ?case
    using b b' eq by (simp split: option.splits sum.splits prod.splits)
qed

text \<open>What the two handlers do.\<close>

lemma on_interrupt_unfold:
  "on_interrupt w =
     (case w_farewell_print w of
        Inl e \<Rightarrow> (Inl e, [Fail (Print farewell_msg) e])
      | Inr u \<Rightarrow> (Inr (), [Call (Print farewell_msg)]))"
  by (simp add: on_interrupt_def call_def split: sum.splits)

lemma on_exception_unfold:
  "on_exception w e =
     (case w_handler_print w of
        Inl e' \<Rightarrow> (Inl e', [Fail (Print (loop_error_msg e)) e'])
      | Inr u \<Rightarrow>
     (case w_backoff_sleep w of
        Inl e' \<Rightarrow> (Inl e', [Call (Print (loop_error_msg e)), Fail (Sleep (Finite 1)) e'])
      | Inr u' \<Rightarrow> (Inr (), [Call (Print (loop_error_msg e)), Call (Sleep (Finite 1))])))"
  by (simp add: on_exception_def io_simps call_def bind_def split: sum.splits)

text \<open>One turn of the loop, with the locals of the next turn replaced by the present ones.\<close>

lemma loop_Cons:
  "loop env lv (w # ws) =
     (case fst (try_body env w lv) of
        None \<Rightarrow> after (snd (snd (try_body env w lv))) (loop env lv ws)
      | Some e \<Rightarrow>
          if e = KeyboardInterrupt then
            (case fst (on_interrupt w) of
               Inl e' \<Rightarrow> (Uncaught e', snd (snd (try_body env w lv)) @ snd (on_interrupt w))
             | Inr u \<Rightarrow> (Exited, snd (snd (try_body env w lv)) @ snd (on_interrupt w)))
          else if is_Exception e then
            (case fst (on_exception w e) of
               Inl e' \<Rightarrow> (Uncaught e', snd (snd (try_body env w lv)) @ snd (on_exception w e))
             | Inr u \<Rightarrow>
                 after (snd (snd (try_body env w lv)) @ snd (on_exception w e))
                   (loop env lv ws))
          else (Uncaught e, snd (snd (try_body env w lv))))"
proof -
  obtain r l es where b: "try_body env w lv = (r, l, es)"
    by (cases "try_body env w lv")
  have "same_config lv l"
    using try_body_keeps_config [of lv env w] b by simp
  then have "loop env l ws = loop env lv ws"
    by (rule loop_same_config)
  then show ?thesis
    using b by (simp split: option.splits sum.splits prod.splits)
qed

subsection \<open>Runs of the sample worlds\<close>

lemma strip_hola: "strip '' hola '' = ''hola''" "strip ''jaja '' = ''jaja''"
  by (simp_all add: strip_def py_spaces_def front_len_def)

lemma good_capture:
  "capture_webcam_frame good_camera =
     (Inr ''/9gBAgM='', [Call (VideoCapture 0 True), Call CamRead, Call CamRelease,
        Call (Imencode ''.jpg'' [1, 2, 3])])"
  by (simp add: capture_unfold good_camera_def b64_char_def b64_alphabet_def)

lemma good_record:
  "record_microphone_wav AUDIO_SECONDS good_microphone =
     (Inr ''/tmp/a.wav'',
      [Call (Print (recording_msg 4)), Call (SdRec 64000 16000 1 ''float32''), Call SdWait,
       Call (TempFile ''.wav''), Call (SfWrite ''/tmp/a.wav'' [0, 1] 16000)])"
  by (simp add: record_microphone_wav_def io_simps good_microphone_def AUDIO_SECONDS_def
      AUDIO_SAMPLE_RATE_def)

lemma good_transcribe:
  "transcribe_audio_with_gemini ''/tmp/a.wav'' good_transcriber =
     (Inr ''hola'',
      [Call (ReadFile ''/tmp/a.wav''),
       Call (Transcription ''gemini/gemini-2.0-flash'' ''mic.wav'' [7])])"
  by (simp add: transcribe_audio_with_gemini_def io_simps good_transcriber_def strip_hola
      TRANSCRIPTION_MODEL_def)

lemma good_generate:
  "generate_goofy_reply f t (Inr [Some ''jaja '']) =
     (Inr ''jaja'', [Call (Completion (reply_request f t))])"
  by (simp add: generate_goofy_reply_def io_simps strip_hola)

lemma good_speak:
  "speak_with_elevenlabs both_keys r v good_speaker =
     (Inr (),
      [Call (GetEnv ''ELEVENLABS_API_KEY''), Call (ElevenLabs ''e-key''),
       Call (TtsConvert v ''eleven_multilingual_v2'' r),
       Call (TempFile ''.mp3''), Call (WriteFile ''/tmp/b.mp3'' [1, 2, 3]),
       Call (SfRead ''/tmp/b.mp3'' ''float32''), Call (SdPlay [9] 44100), Call SdWait])"
  by (simp add: speak_with_elevenlabs_def environ_item_def io_simps call_def good_speaker_def
      both_keys_def)

lemma good_world_fields:
  "w_camera good_world = good_camera"
  "w_microphone good_world = good_microphone"
  "w_transcriber good_world = good_transcriber"
  "w_transcript_print good_world = Inr ()"
  "w_completion good_world = Inr [Some ''jaja '']"
  "w_reply_print good_world = Inr ()"
  "w_speaker good_world = good_speaker"
  "w_delay_sleep good_world = Inr ()"
  "w_farewell_print good_world = Inr ()"
  "w_handler_print good_world = Inr ()"
  "w_backoff_sleep good_world = Inr ()"
  by (simp_all add: good_world_def)

lemma good_try_body:
  "try_body both_keys good_world lv =
     (None,
      lv\<lparr>frame_b64 := Some ''/9gBAgM='', wav_path := Some ''/tmp/a.wav'',
         transcript_text := Some ''hola'', reply := Some ''jaja''\<rparr>,
      good_events (voice_id lv) (loop_delay lv))"
  by (simp add: try_body_unfold good_world_fields good_capture good_record good_transcribe
      good_generate good_speak good_events_def)

lemma no_camera_try_body:
  "try_body env no_camera_world lv =
     (Some (RuntimeError cam_open_msg), lv, [Call (VideoCapture 0 False)])"
  by (simp add: try_body_unfold no_camera_world_def capture_unfold)

lemma no_camera_handler:
  "on_exception no_camera_world e =
     (Inr (), [Call (Print (loop_error_msg e)), Call (Sleep (Finite 1))])"
  by (simp add: on_exception_unfold no_camera_world_def good_world_fields)

lemma interrupted_try_body:
  "try_body env interrupted_world lv =
     (Some KeyboardInterrupt, lv\<lparr>frame_b64 := Some ''/9gBAgM=''\<rparr>,
      [Call (VideoCapture 0 True), Call CamRead, Call CamRelease,
       Call (Imencode ''.jpg'' [1, 2, 3]),
       Call (Print (recording_msg 4)), Call (SdRec 64000 16000 1 ''float32''),
       Fail SdWait KeyboardInterrupt])"
  by (simp add: try_body_unfold interrupted_world_def good_world_fields good_capture
      record_microphone_wav_def io_simps good_microphone_def AUDIO_SECONDS_def
      AUDIO_SAMPLE_RATE_def)

lemma interrupted_farewell: "on_interrupt interrupted_world = (Inr (), [Call (Print farewell_msg)])"
  by (simp add: on_interrupt_unfold interrupted_world_def good_world_fields)

lemma interrupted_completion_try_body:
  "try_body env interrupted_completion_world lv =
     (Some KeyboardInterrupt,
      lv\<lparr>frame_b64 := Some ''/9gBAgM='', wav_path := Some ''/tmp/a.wav'',
         transcript_text := Some ''hola''\<rparr>,
      [Call (VideoCapture 0 True), Call CamRead, Call CamRelease,
       Call (Imencode ''.jpg'' [1, 2, 3]),
       Call (Print (recording_msg 4)), Call (SdRec 64000 16000 1 ''float32''), Call SdWait,
       Call (TempFile ''.wav''), Call (SfWrite ''/tmp/a.wav'' [0, 1] 16000),
       Call (ReadFile ''/tmp/a.wav''),
       Call (Transcription ''gemini/gemini-2.0-flash'' ''mic.wav'' [7]),
       Call (Print (transcript_msg ''hola'')),
       Fail (Completion (reply_request ''/9gBAgM='' ''hola'')) KeyboardInterrupt])"
  by (simp add: try_body_unfold interrupted_completion_world_def good_world_fields good_capture
      good_record good_transcribe generate_goofy_reply_def io_simps)

lemma interrupted_completion_farewell:
  "on_interrupt interrupted_completion_world = (Inr (), [Call (Print farewell_msg)])"
  by (simp add: on_interrupt_unfold interrupted_completion_world_def good_world_fields)

lemma failing_worlds_camera:
  "w_camera no_microphone_world = good_camera"
  "w_camera no_transcription_world = good_camera"
  "w_camera no_completion_world = good_camera"
  "w_camera no_speech_world = good_camera"
  by (simp_all add: no_microphone_world_def no_transcription_world_def no_completion_world_def
      no_speech_world_def good_world_def)

lemma failing_worlds_microphone:
  "w_microphone no_transcription_world = good_microphone"
  "w_microphone no_completion_world = good_microphone"
  "w_microphone no_speech_world = good_microphone"
  by (simp_all add: no_transcription_world_def no_completion_world_def
      no_speech_world_def good_world_def)

lemma failing_worlds_transcriber:
  "w_transcriber no_completion_world = good_transcriber"
  "w_transcriber no_speech_world = good_transcriber"
  by (simp_all add: no_completion_world_def no_speech_world_def good_world_def)

lemma failing_worlds_completion:
  "w_completion no_completion_world = Inr []"
  "w_completion no_speech_world = Inr [Some ''jaja '']"
  by (simp_all add: no_completion_world_def no_speech_world_def good_world_def)

lemma failing_worlds_prints:
  "w_transcript_print no_completion_world = Inr ()"
  "w_transcript_print no_speech_world = Inr ()"
  "w_reply_print no_speech_world = Inr ()"
  by (simp_all add: no_completion_world_def no_speech_world_def good_world_def)

lemma failing_worlds_handler:
  "w_handler_print no_camera_world = Inr ()"
  "w_handler_print no_microphone_world = Inr ()"
  "w_handler_print no_transcription_world = Inr ()"
  "w_handler_print no_completion_world = Inr ()"
  "w_handler_print no_speech_world = Inr ()"
  "w_backoff_sleep no_camera_world = Inr ()"
  "w_backoff_sleep no_microphone_world = Inr ()"
  "w_backoff_sleep no_transcription_world = Inr ()"
  "w_backoff_sleep no_completion_world = Inr ()"
  "w_backoff_sleep no_speech_world = Inr ()"
  by (simp_all add: no_camera_world_def no_microphone_world_def no_transcription_world_def
      no_completion_world_def no_speech_world_def good_world_def)

lemma no_microphone_record:
  "fst (record_microphone_wav AUDIO_SECONDS (w_microphone no_microphone_world)) =
     Inl (LibraryError ''No input device'')"
  by (simp add: no_microphone_world_def good_world_def good_microphone_def
      record_microphone_wav_def io_simps)

lemma no_transcription_transcribe:
  "fst (transcribe_audio_with_gemini ''/tmp/a.wav'' (w_transcriber no_transcription_world)) =
     Inl (LibraryError ''quota exceeded'')"
  by (simp add: no_transcription_world_def good_world_def good_transcriber_def
      transcribe_audio_with_gemini_def io_simps)

lemma no_completion_generate:
  "fst (generate_goofy_reply f t (Inr [])) = Inl (IndexError ''list index out of range'')"
  by (simp add: generate_goofy_reply_def io_simps)

lemma no_speech_speak:
  "fst (speak_with_elevenlabs both_keys r v (w_speaker no_speech_world)) =
     Inl (LibraryError ''connection reset'')"
  by (simp add: no_speech_world_def good_world_def good_speaker_def speak_with_elevenlabs_def
      environ_item_def io_simps both_keys_def)

lemma main_both_keys:
  "main good_boot Map.empty both_keys ws =
     after (env_reads @ [Call (Print started_banner)])
       (loop both_keys (initial_locals DEFAULT_VOICE_ID (Finite 1)) ws)"
proof -
  have "startup good_boot both_keys =
      (Inr (initial_locals (voice_text both_keys) (Finite 1)),
       env_reads @ [Call (Print started_banner)])"
    by (rule startup_ok [where u = "()"])
       (simp_all add: both_keys_def py_not_def delay_text_def py_float_one good_boot_def)
  moreover have "voice_text both_keys = DEFAULT_VOICE_ID"
    by (simp add: voice_text_def both_keys_def)
  ultimately show ?thesis
    by (simp add: main_def load_dotenv_def)
qed

subsection \<open>The order of the steps\<close>

text \<open>
  Claim C4. In an iteration whose \<open>try\<close> body completes, the five steps have all run,
  each returned a value and made at least one call, and the events of the iteration are
  those of capture, record, transcribe, the print of the transcript, generate, the print
  of the reply, speak and the pause, in this order. Transcribe reads the file that this
  iteration's record returned, generate gets this iteration's frame and transcript, speak
  gets this iteration's reply. Nothing is taken from an earlier iteration: whatever the
  four loop variables held before, the iteration runs the same and leaves the same
  values.
\<close>

theorem successful_iteration_order:
  assumes "try_body env w lv = (None, lv', es)"
  shows "\<exists>f p t r.
       fst (capture_webcam_frame (w_camera w)) = Inr f
     \<and> fst (record_microphone_wav AUDIO_SECONDS (w_microphone w)) = Inr p
     \<and> fst (transcribe_audio_with_gemini p (w_transcriber w)) = Inr t
     \<and> fst (generate_goofy_reply f t (w_completion w)) = Inr r
     \<and> fst (speak_with_elevenlabs env r (voice_id lv) (w_speaker w)) = Inr ()
     \<and> es = snd (capture_webcam_frame (w_camera w)) @
             snd (record_microphone_wav AUDIO_SECONDS (w_microphone w)) @
             snd (transcribe_audio_with_gemini p (w_transcriber w)) @
             [Call (Print (transcript_msg t))] @
             snd (generate_goofy_reply f t (w_completion w)) @
             [Call (Print (reply_msg r))] @
             snd (speak_with_elevenlabs env r (voice_id lv) (w_speaker w)) @
             [Call (Sleep (loop_delay lv))]
     \<and> snd (capture_webcam_frame (w_camera w)) \<noteq> []
     \<and> snd (record_microphone_wav AUDIO_SECONDS (w_microphone w)) \<noteq> []
     \<and> snd (transcribe_audio_with_gemini p (w_transcriber w)) \<noteq> []
     \<and> snd (generate_goofy_reply f t (w_completion w)) \<noteq> []
     \<and> snd (speak_with_elevenlabs env r (voice_id lv) (w_speaker w)) \<noteq> []
     \<and> lv' = lv\<lparr>frame_b64 := Some f, wav_path := Some p, transcript_text := Some t,
                  reply := Some r\<rparr>
     \<and> (\<forall>a b c d.
           try_body env w (lv\<lparr>frame_b64 := a, wav_path := b, transcript_text := c, reply := d\<rparr>) =
             (None, lv', es))"
proof -
  from assms obtain f es1 p es2 t es3 r es4 es5 where
    s: "capture_webcam_frame (w_camera w) = (Inr f, es1)"
       "record_microphone_wav AUDIO_SECONDS (w_microphone w) = (Inr p, es2)"
       "transcribe_audio_with_gemini p (w_transcriber w) = (Inr t, es3)"
       "generate_goofy_reply f t (w_completion w) = (Inr r, es4)"
       "speak_with_elevenlabs env r (voice_id lv) (w_speaker w) = (Inr (), es5)"
    and d: "w_delay_sleep w = Inr ()" "w_transcript_print w = Inr ()"
      "w_reply_print w = Inr ()"
    and es: "es = es1 @ es2 @ es3 @ [Call (Print (transcript_msg t))] @ es4 @
                  [Call (Print (reply_msg r))] @ es5 @ [Call (Sleep (loop_delay lv))]"
    and lv': "lv' = lv\<lparr>frame_b64 := Some f, wav_path := Some p, transcript_text := Some t,
                        reply := Some r\<rparr>"
    by (auto simp: try_body_unfold split: prod.splits sum.splits)
  have "es1 \<noteq> []" "es2 \<noteq> []" "es3 \<noteq> []" "es4 \<noteq> []" "es5 \<noteq> []"
    using capture_nonempty [of "w_camera w"]
      record_nonempty [of AUDIO_SECONDS "w_microphone w"]
      transcribe_nonempty [of p "w_transcriber w"]
      generate_nonempty [of f t "w_completion w"]
      speak_nonempty [of env r "voice_id lv" "w_speaker w"] s
    by simp_all
  moreover have "\<forall>a b c d.
      try_body env w (lv\<lparr>frame_b64 := a, wav_path := b, transcript_text := c, reply := d\<rparr>) =
        (None, lv', es)"
    using s d es lv' by (simp add: try_body_unfold)
  ultimately show ?thesis
    using s es lv' by auto
qed

theorem successful_iteration_order_witness:
  "try_body both_keys good_world
     (initial_locals ''v'' (Finite 1)
        \<lparr>frame_b64 := Some ''old'', wav_path := Some ''old.wav'',
         transcript_text := Some ''antes'', reply := Some ''viejo''\<rparr>) =
     (None,
      initial_locals ''v'' (Finite 1)
        \<lparr>frame_b64 := Some ''/9gBAgM='', wav_path := Some ''/tmp/a.wav'',
         transcript_text := Some ''hola'', reply := Some ''jaja''\<rparr>,
      good_events ''v'' (Finite 1))"
  using successful_iteration_order [of both_keys good_world
      "initial_locals ''v'' (Finite 1)"
      "initial_locals ''v'' (Finite 1)
        \<lparr>frame_b64 := Some ''/9gBAgM='', wav_path := Some ''/tmp/a.wav'',
         transcript_text := Some ''hola'', reply := Some ''jaja''\<rparr>"
      "good_events ''v'' (Finite 1)"]
  by (simp add: good_try_body initial_locals_def)

subsection \<open>Exceptions of the steps\<close>

lemma loop_all_fail:
  "(\<forall>w\<in>set ws. (\<exists>e. fst (try_body env w lv) = Some e \<and> is_Exception e) \<and>
       w_handler_print w = Inr () \<and> w_backoff_sleep w = Inr ()) \<Longrightarrow>
   fst (loop env lv ws) = Running"
proof (induction ws)
  case Nil
  show ?case by simp
next
  case (Cons w ws)
  then obtain e where e: "fst (try_body env w lv) = Some e" "is_Exception e"
    and b: "w_handler_print w = Inr ()" "w_backoff_sleep w = Inr ()"
    by auto
  from e(2) have "e \<noteq> KeyboardInterrupt" by auto
  moreover have "fst (loop env lv ws) = Running"
    using Cons by simp
  ultimately show ?case
    using e b by (simp add: loop_Cons on_exception_unfold after_def del: loop.simps)
qed

lemma try_body_step_failure:
  "fst (capture_webcam_frame (w_camera w)) = Inl e \<Longrightarrow> fst (try_body env w lv) = Some e"
  "fst (capture_webcam_frame (w_camera w)) = Inr f \<Longrightarrow>
   fst (record_microphone_wav AUDIO_SECONDS (w_microphone w)) = Inl e \<Longrightarrow>
   fst (try_body env w lv) = Some e"
  "fst (capture_webcam_frame (w_camera w)) = Inr f \<Longrightarrow>
   fst (record_microphone_wav AUDIO_SECONDS (w_microphone w)) = Inr p \<Longrightarrow>
   fst (transcribe_audio_with_gemini p (w_transcriber w)) = Inl e \<Longrightarrow>
   fst (try_body env w lv) = Some e"
  "fst (capture_webcam_frame (w_camera w)) = Inr f \<Longrightarrow>
   fst (record_microphone_wav AUDIO_SECONDS (w_microphone w)) = Inr p \<Longrightarrow>
   fst (transcribe_audio_with_gemini p (w_transcriber w)) = Inr t \<Longrightarrow>
   w_transcript_print w = Inr () \<Longrightarrow>
   fst (generate_goofy_reply f t (w_completion w)) = Inl e \<Longrightarrow>
   fst (try_body env w lv) = Some e"
  "fst (capture_webcam_frame (w_camera w)) = Inr f \<Longrightarrow>
   fst (record_microphone_wav AUDIO_SECONDS (w_microphone w)) = Inr p \<Longrightarrow>
   fst (transcribe_audio_with_gemini p (w_transcriber w)) = Inr t \<Longrightarrow>
   w_transcript_print w = Inr () \<Longrightarrow>
   fst (generate_goofy_reply f t (w_completion w)) = Inr r \<Longrightarrow>
   w_reply_print w = Inr () \<Longrightarrow>
   fst (speak_with_elevenlabs env r (voice_id lv) (w_speaker w)) = Inl e \<Longrightarrow>
   fst (try_body env w lv) = Some e"
  by (auto simp: try_body_unfold split: prod.splits sum.splits)

lemma exiting_try_body:
  "try_body env exiting_world lv =
     (Some (BaseExc ''SystemExit''),
      lv\<lparr>frame_b64 := Some ''/9gBAgM='', wav_path := Some ''/tmp/a.wav''\<rparr>,
      [Call (VideoCapture 0 True), Call CamRead, Call CamRelease,
       Call (Imencode ''.jpg'' [1, 2, 3]),
       Call (Print (recording_msg 4)), Call (SdRec 64000 16000 1 ''float32''), Call SdWait,
       Call (TempFile ''.wav''), Call (SfWrite ''/tmp/a.wav'' [0, 1] 16000),
       Call (ReadFile ''/tmp/a.wav''),
       Fail (Transcription ''gemini/gemini-2.0-flash'' ''mic.wav'' [7]) (BaseExc ''SystemExit'')])"
  by (simp add: try_body_unfold exiting_world_def good_world_fields good_capture good_record
      transcribe_audio_with_gemini_def io_simps good_transcriber_def TRANSCRIPTION_MODEL_def)

text \<open>
  Claim C2, as stated, fails: not every exception raised by a step is followed by the
  message, the pause and the next iteration. In the first run the operator presses Ctrl+C
  while the fourth step waits for the completion service: the \<open>KeyboardInterrupt\<close> goes to
  the other handler, there is no error message and no pause, and the loop ends though the
  world had a second iteration ready. In the second run the transcription call of the
  third step is left by \<open>SystemExit\<close>: neither handler takes it, and it leaves the loop
  and \<open>main\<close>.
\<close>

theorem step_exception_not_contained_counterexample:
  "fst (generate_goofy_reply ''/9gBAgM='' ''hola'' (w_completion interrupted_completion_world)) =
     Inl KeyboardInterrupt
   \<and> loop both_keys (initial_locals ''v'' (Finite 1)) [interrupted_completion_world, good_world] =
     (Exited,
      [Call (VideoCapture 0 True), Call CamRead, Call CamRelease,
       Call (Imencode ''.jpg'' [1, 2, 3]),
       Call (Print (recording_msg 4)), Call (SdRec 64000 16000 1 ''float32''), Call SdWait,
       Call (TempFile ''.wav''), Call (SfWrite ''/tmp/a.wav'' [0, 1] 16000),
       Call (ReadFile ''/tmp/a.wav''),
       Call (Transcription ''gemini/gemini-2.0-flash'' ''mic.wav'' [7]),
       Call (Print (transcript_msg ''hola'')),
       Fail (Completion (reply_request ''/9gBAgM='' ''hola'')) KeyboardInterrupt,
       Call (Print farewell_msg)])
   \<and> fst (transcribe_audio_with_gemini ''/tmp/a.wav'' (w_transcriber exiting_world)) =
     Inl (BaseExc ''SystemExit'')
   \<and> loop both_keys (initial_locals ''v'' (Finite 1)) [exiting_world, good_world] =
     (Uncaught (BaseExc ''SystemExit''),
      [Call (VideoCapture 0 True), Call CamRead, Call CamRelease,
       Call (Imencode ''.jpg'' [1, 2, 3]),
       Call (Print (recording_msg 4)), Call (SdRec 64000 16000 1 ''float32''), Call SdWait,
       Call (TempFile ''.wav''), Call (SfWrite ''/tmp/a.wav'' [0, 1] 16000),
       Call (ReadFile ''/tmp/a.wav''),
       Fail (Transcription ''gemini/gemini-2.0-flash'' ''mic.wav'' [7]) (BaseExc ''SystemExit'')])"
proof -
  have a: "fst (generate_goofy_reply ''/9gBAgM='' ''hola''
      (w_completion interrupted_completion_world)) = Inl KeyboardInterrupt"
    by (simp add: interrupted_completion_world_def generate_goofy_reply_def io_simps)
  have b: "fst (transcribe_audio_with_gemini ''/tmp/a.wav'' (w_transcriber exiting_world)) =
      Inl (BaseExc ''SystemExit'')"
    by (simp add: exiting_world_def good_transcriber_def transcribe_audio_with_gemini_def
        io_simps)
  show ?thesis
    by (simp add: a b interrupted_completion_try_body interrupted_completion_farewell
        exiting_try_body)
qed

text \<open>
  Claim C2, amended. An exception raised by the first step that fails, whichever of the
  five it is, leaves the \<open>try\<close> body. If it belongs to the \<open>Exception\<close> hierarchy, the
  handler prints the message \<open>Error en loop\<close> with the text of the exception and pauses
  one second; when that \<open>print\<close> and that pause return, the run goes on with the next
  iteration: nothing leaves the loop. This holds however many iterations fail in a row: a
  run in which every iteration fails this way is still running after any number of them.
\<close>

theorem step_exceptions_are_contained:
  "(fst (capture_webcam_frame (w_camera w)) = Inl e \<longrightarrow> fst (try_body env w lv) = Some e)
   \<and> (fst (capture_webcam_frame (w_camera w)) = Inr f \<and>
       fst (record_microphone_wav AUDIO_SECONDS (w_microphone w)) = Inl e \<longrightarrow>
       fst (try_body env w lv) = Some e)
   \<and> (fst (capture_webcam_frame (w_camera w)) = Inr f \<and>
       fst (record_microphone_wav AUDIO_SECONDS (w_microphone w)) = Inr p \<and>
       fst (transcribe_audio_with_gemini p (w_transcriber w)) = Inl e \<longrightarrow>
       fst (try_body env w lv) = Some e)
   \<and> (fst (capture_webcam_frame (w_camera w)) = Inr f \<and>
       fst (record_microphone_wav AUDIO_SECONDS (w_microphone w)) = Inr p \<and>
       fst (transcribe_audio_with_gemini p (w_transcriber w)) = Inr t \<and>
       w_transcript_print w = Inr () \<and>
       fst (generate_goofy_reply f t (w_completion w)) = Inl e \<longrightarrow>
       fst (try_body env w lv) = Some e)
   \<and> (fst (capture_webcam_frame (w_camera w)) = Inr f \<and>
       fst (record_microphone_wav AUDIO_SECONDS (w_microphone w)) = Inr p \<and>
       fst (transcribe_audio_with_gemini p (w_transcriber w)) = Inr t \<and>
       w_transcript_print w = Inr () \<and>
       fst (generate_goofy_reply f t (w_completion w)) = Inr r \<and>
       w_reply_print w = Inr () \<and>
       fst (speak_with_elevenlabs env r (voice_id lv) (w_speaker w)) = Inl e \<longrightarrow>
       fst (try_body env w lv) = Some e)
   \<and> (fst (try_body env w lv) = Some e \<and> is_Exception e \<and> w_handler_print w = Inr () \<and>
       w_backoff_sleep w = Inr () \<longrightarrow>
       loop env lv (w # ws) =
         after (snd (snd (try_body env w lv)) @
                [Call (Print ([CHR 0xE2, CHR 0x9A, CHR 0xA0, CHR 0xEF, CHR 0xB8, CHR 0x8F] @
                   '' Error en loop: '' @ str_exn e)),
                 Call (Sleep (Finite 1))])
           (loop env (fst (snd (try_body env w lv))) ws))
   \<and> ((\<forall>w'\<in>set ws'. (\<exists>e'. fst (try_body env w' lv) = Some e' \<and> is_Exception e') \<and>
          w_handler_print w' = Inr () \<and> w_backoff_sleep w' = Inr ()) \<longrightarrow>
       fst (loop env lv ws') = Running)"
proof -
  have caught: "loop env lv (w # ws) =
         after (snd (snd (try_body env w lv)) @
                [Call (Print ([CHR 0xE2, CHR 0x9A, CHR 0xA0, CHR 0xEF, CHR 0xB8, CHR 0x8F] @
                   '' Error en loop: '' @ str_exn e)),
                 Call (Sleep (Finite 1))])
           (loop env (fst (snd (try_body env w lv))) ws)"
    if "fst (try_body env w lv) = Some e" "is_Exception e" "w_handler_print w = Inr ()"
      "w_backoff_sleep w = Inr ()"
  proof -
    from that(2) have "e \<noteq> KeyboardInterrupt" by auto
    then show ?thesis
      using that
      by (cases "try_body env w lv") (simp add: on_exception_unfold loop_error_msg_def)
  qed
  show ?thesis
    by (intro conjI impI; (elim conjE)?;
        (rule caught try_body_step_failure loop_all_fail; assumption))
qed

theorem step_exceptions_are_contained_witness:
  "fst (try_body both_keys no_camera_world (initial_locals ''v'' (Finite 1))) =
     Some (RuntimeError cam_open_msg)
   \<and> fst (try_body both_keys no_microphone_world (initial_locals ''v'' (Finite 1))) =
     Some (LibraryError ''No input device'')
   \<and> fst (try_body both_keys no_transcription_world (initial_locals ''v'' (Finite 1))) =
     Some (LibraryError ''quota exceeded'')
   \<and> fst (try_body both_keys no_completion_world (initial_locals ''v'' (Finite 1))) =
     Some (IndexError ''list index out of range'')
   \<and> fst (try_body both_keys no_speech_world (initial_locals ''v'' (Finite 1))) =
     Some (LibraryError ''connection reset'')
   \<and> loop both_keys (initial_locals ''v'' (Finite 1)) [no_camera_world] =
     (Running,
      [Call (VideoCapture 0 False),
       Call (Print ([CHR 0xE2, CHR 0x9A, CHR 0xA0, CHR 0xEF, CHR 0xB8, CHR 0x8F] @
          '' Error en loop: No se pudo abrir la webcam ('' @ [CHR 0xC3, CHR 0xAD] @
          ''ndice 0).'')),
       Call (Sleep (Finite 1))])
   \<and> fst (loop both_keys (initial_locals ''v'' (Finite 1))
        [no_camera_world, no_microphone_world, no_transcription_world, no_completion_world,
         no_speech_world]) = Running
   \<and> fst (loop both_keys (initial_locals ''v'' (Finite 1)) (replicate 50 no_camera_world)) =
     Running"
proof -
  let ?lv = "initial_locals ''v'' (Finite 1)"
  let ?all = "[no_camera_world, no_microphone_world, no_transcription_world,
    no_completion_world, no_speech_world]"
  note th = step_exceptions_are_contained [where env = both_keys and lv = ?lv
      and f = "''/9gBAgM=''" and p = "''/tmp/a.wav''" and t = "''hola''" and r = "''jaja''"]
  have cam: "fst (capture_webcam_frame (w_camera no_camera_world)) =
      Inl (RuntimeError cam_open_msg)"
    by (simp add: capture_unfold no_camera_world_def)
  have c1: "fst (try_body both_keys no_camera_world ?lv) = Some (RuntimeError cam_open_msg)"
    using th [of no_camera_world "RuntimeError cam_open_msg" "[]" "[]", THEN conjunct1] cam
    by blast
  have c2: "fst (try_body both_keys no_microphone_world ?lv) =
      Some (LibraryError ''No input device'')"
    using th [of no_microphone_world "LibraryError ''No input device''" "[]" "[]",
        THEN conjunct2, THEN conjunct1]
    by (simp add: failing_worlds_camera good_capture no_microphone_record)
  have c3: "fst (try_body both_keys no_transcription_world ?lv) =
      Some (LibraryError ''quota exceeded'')"
    using th [of no_transcription_world "LibraryError ''quota exceeded''" "[]" "[]",
        THEN conjunct2, THEN conjunct2, THEN conjunct1]
    by (simp add: failing_worlds_camera failing_worlds_microphone good_capture good_record
        no_transcription_transcribe)
  have c4: "fst (try_body both_keys no_completion_world ?lv) =
      Some (IndexError ''list index out of range'')"
    using th [of no_completion_world "IndexError ''list index out of range''" "[]" "[]",
        THEN conjunct2, THEN conjunct2, THEN conjunct2, THEN conjunct1]
    by (simp add: failing_worlds_camera failing_worlds_microphone failing_worlds_transcriber
        failing_worlds_completion failing_worlds_prints good_capture good_record
        good_transcribe no_completion_generate)
  have c5: "fst (try_body both_keys no_speech_world ?lv) =
      Some (LibraryError ''connection reset'')"
    using th [of no_speech_world "LibraryError ''connection reset''" "[]" "[]",
        THEN conjunct2, THEN conjunct2, THEN conjunct2, THEN conjunct2, THEN conjunct1]
    by (simp add: failing_worlds_camera failing_worlds_microphone failing_worlds_transcriber
        failing_worlds_completion failing_worlds_prints good_capture good_record
        good_transcribe good_generate no_speech_speak)
  have c6: "loop both_keys ?lv [no_camera_world] =
     (Running,
      [Call (VideoCapture 0 False),
       Call (Print ([CHR 0xE2, CHR 0x9A, CHR 0xA0, CHR 0xEF, CHR 0xB8, CHR 0x8F] @
          '' Error en loop: No se pudo abrir la webcam ('' @ [CHR 0xC3, CHR 0xAD] @
          ''ndice 0).'')),
       Call (Sleep (Finite 1))])"
    using th [of no_camera_world "RuntimeError cam_open_msg" "[]" "[]",
        THEN conjunct2, THEN conjunct2, THEN conjunct2, THEN conjunct2, THEN conjunct2,
        THEN conjunct1]
    by (simp add: no_camera_try_body failing_worlds_handler after_def cam_open_msg_def)
  have c7: "fst (loop both_keys ?lv ?all) = Running"
    using th [of no_camera_world "RuntimeError cam_open_msg" "[]" ?all,
        THEN conjunct2, THEN conjunct2, THEN conjunct2, THEN conjunct2, THEN conjunct2,
        THEN conjunct2]
    by (simp add: c1 c2 c3 c4 c5 failing_worlds_handler del: loop.simps)
  have c8: "fst (loop both_keys ?lv (replicate 50 no_camera_world)) = Running"
    using th [of no_camera_world "RuntimeError cam_open_msg" "[]"
        "replicate 50 no_camera_world",
        THEN conjunct2, THEN conjunct2, THEN conjunct2, THEN conjunct2, THEN conjunct2,
        THEN conjunct2]
    by (simp add: c1 failing_worlds_handler del: loop.simps)
  show ?thesis
    by (intro conjI) (rule c1 c2 c3 c4 c5 c6 c7 c8)+
qed

subsection \<open>Leaving the loop\<close>

lemma loop_Exited:
  "fst (loop env lv ws) = Exited \<Longrightarrow>
   (\<exists>w\<in>set ws. fst (try_body env w lv) = Some KeyboardInterrupt) \<and>
   snd (loop env lv ws) \<noteq> [] \<and> last (snd (loop env lv ws)) = Call (Print farewell_msg)"
proof (induction ws)
  case Nil
  then show ?case by simp
next
  case (Cons w ws)
  show ?case
  proof (cases "fst (try_body env w lv) = Some KeyboardInterrupt")
    case True
    with Cons.prems show ?thesis
      by (auto simp: loop_Cons on_interrupt_unfold simp del: loop.simps split: sum.splits)
  next
    case False
    with Cons.prems have "fst (loop env lv ws) = Exited"
      by (auto simp: loop_Cons after_def simp del: loop.simps
          split: option.splits if_splits sum.splits)
    with Cons.IH have ih:
      "\<exists>w\<in>set ws. fst (try_body env w lv) = Some KeyboardInterrupt"
      "snd (loop env lv ws) \<noteq> []" "last (snd (loop env lv ws)) = Call (Print farewell_msg)"
      by simp_all
    with Cons.prems False show ?thesis
      by (auto simp: loop_Cons after_def simp del: loop.simps
          split: option.splits if_splits sum.splits)
  qed
qed

lemma try_body_step_interrupted:
  "fst (capture_webcam_frame (w_camera w)) = Inl e \<Longrightarrow>
   try_body env w lv = (Some e, lv, snd (capture_webcam_frame (w_camera w)))"
  "fst (capture_webcam_frame (w_camera w)) = Inr f \<Longrightarrow>
   fst (record_microphone_wav AUDIO_SECONDS (w_microphone w)) = Inl e \<Longrightarrow>
   try_body env w lv =
     (Some e, lv\<lparr>frame_b64 := Some f\<rparr>,
      snd (capture_webcam_frame (w_camera w)) @
      snd (record_microphone_wav AUDIO_SECONDS (w_microphone w)))"
  "fst (capture_webcam_frame (w_camera w)) = Inr f \<Longrightarrow>
   fst (record_microphone_wav AUDIO_SECONDS (w_microphone w)) = Inr p \<Longrightarrow>
   fst (transcribe_audio_with_gemini p (w_transcriber w)) = Inl e \<Longrightarrow>
   try_body env w lv =
     (Some e, lv\<lparr>frame_b64 := Some f, wav_path := Some p\<rparr>,
      snd (capture_webcam_frame (w_camera w)) @
      snd (record_microphone_wav AUDIO_SECONDS (w_microphone w)) @
      snd (transcribe_audio_with_gemini p (w_transcriber w)))"
  "fst (capture_webcam_frame (w_camera w)) = Inr f \<Longrightarrow>
   fst (record_microphone_wav AUDIO_SECONDS (w_microphone w)) = Inr p \<Longrightarrow>
   fst (transcribe_audio_with_gemini p (w_transcriber w)) = Inr t \<Longrightarrow>
   w_transcript_print w = Inr () \<Longrightarrow>
   fst (generate_goofy_reply f t (w_completion w)) = Inl e \<Longrightarrow>
   try_body env w lv =
     (Some e, lv\<lparr>frame_b64 := Some f, wav_path := Some p, transcript_text := Some t\<rparr>,
      snd (capture_webcam_frame (w_camera w)) @
      snd (record_microphone_wav AUDIO_SECONDS (w_microphone w)) @
      snd (transcribe_audio_with_gemini p (w_transcriber w)) @
      [Call (Print (transcript_msg t))] @
      snd (generate_goofy_reply f t (w_completion w)))"
  "fst (capture_webcam_frame (w_camera w)) = Inr f \<Longrightarrow>
   fst (record_microphone_wav AUDIO_SECONDS (w_microphone w)) = Inr p \<Longrightarrow>
   fst (transcribe_audio_with_gemini p (w_transcriber w)) = Inr t \<Longrightarrow>
   w_transcript_print w = Inr () \<Longrightarrow>
   fst (generate_goofy_reply f t (w_completion w)) = Inr r \<Longrightarrow>
   w_reply_print w = Inr () \<Longrightarrow>
   fst (speak_with_elevenlabs env r (voice_id lv) (w_speaker w)) = Inl e \<Longrightarrow>
   try_body env w lv =
     (Some e,
      lv\<lparr>frame_b64 := Some f, wav_path := Some p, transcript_text := Some t, reply := Some r\<rparr>,
      snd (capture_webcam_frame (w_camera w)) @
      snd (record_microphone_wav AUDIO_SECONDS (w_microphone w)) @
      snd (transcribe_audio_with_gemini p (w_transcriber w)) @
      [Call (Print (transcript_msg t))] @
      snd (generate_goofy_reply f t (w_completion w)) @
      [Call (Print (reply_msg r))] @
      snd (speak_with_elevenlabs env r (voice_id lv) (w_speaker w)))"
  by (auto simp: try_body_unfold split: prod.splits sum.splits)

text \<open>
  Claim C7, as stated, fails. The interrupt is not held back while a step is in progress:
  in the first run the operator presses Ctrl+C while \<open>sd.wait()\<close> blocks inside the
  second step, in the first iteration. The \<open>try\<close> covers the steps, so the
  \<open>KeyboardInterrupt\<close> reaches its handler from inside the step: the recording is never
  written, the steps after it never start, and the loop ends with the farewell. Nor is an
  interrupt the only thing that ends the loop: in the second run the transcription call
  is left by \<open>SystemExit\<close>, which neither handler takes, and the run ends there with no
  interrupt and no farewell.
\<close>

theorem interrupt_mid_step_counterexample:
  "main good_boot Map.empty both_keys [interrupted_world, good_world] =
     (Exited,
      [Call LoadDotenv, Call (GetEnv ''GEMINI_API_KEY''), Call (GetEnv ''ELEVENLABS_API_KEY''),
       Call (GetEnv ''ELEVENLABS_VOICE_ID''), Call (GetEnv ''LOOP_DELAY_SECONDS''),
       Call (Print started_banner),
       Call (VideoCapture 0 True), Call CamRead, Call CamRelease,
       Call (Imencode ''.jpg'' [1, 2, 3]),
       Call (Print (recording_msg 4)), Call (SdRec 64000 16000 1 ''float32''),
       Fail SdWait KeyboardInterrupt,
       Call (Print farewell_msg)])
   \<and> main good_boot Map.empty both_keys [exiting_world, good_world] =
     (Uncaught (BaseExc ''SystemExit''),
      [Call LoadDotenv, Call (GetEnv ''GEMINI_API_KEY''), Call (GetEnv ''ELEVENLABS_API_KEY''),
       Call (GetEnv ''ELEVENLABS_VOICE_ID''), Call (GetEnv ''LOOP_DELAY_SECONDS''),
       Call (Print started_banner),
       Call (VideoCapture 0 True), Call CamRead, Call CamRelease,
       Call (Imencode ''.jpg'' [1, 2, 3]),
       Call (Print (recording_msg 4)), Call (SdRec 64000 16000 1 ''float32''), Call SdWait,
       Call (TempFile ''.wav''), Call (SfWrite ''/tmp/a.wav'' [0, 1] 16000),
       Call (ReadFile ''/tmp/a.wav''),
       Fail (Transcription ''gemini/gemini-2.0-flash'' ''mic.wav'' [7]) (BaseExc ''SystemExit'')])"
  by (simp add: main_both_keys interrupted_try_body interrupted_farewell exiting_try_body
      after_def env_reads_def)

text \<open>
  Claim C7, amended. A \<open>KeyboardInterrupt\<close> raised anywhere in the \<open>try\<close> body goes to
  its handler at once and, the \<open>print\<close> of the farewell returning, the loop ends there
  with the farewell message and \<open>main\<close> returns. This is so also while a step is in
  progress: an interrupt raised inside any of the five steps leaves the \<open>try\<close> body with
  the events up to the interrupted call, and nothing of the later steps. The loop ends
  this way only: when it has ended cleanly, some iteration was interrupted in its \<open>try\<close>
  body, and the farewell is the last event.
\<close>

theorem loop_exit_conditions:
  "(fst (try_body env w lv) = Some KeyboardInterrupt \<and> w_farewell_print w = Inr () \<longrightarrow>
      loop env lv (w # ws) =
        (Exited,
         snd (snd (try_body env w lv)) @
         [Call (Print ([CHR 0x0A, CHR 0xF0, CHR 0x9F, CHR 0x91, CHR 0x8B] @ '' Saliendo...''))]))
   \<and> (fst (capture_webcam_frame (w_camera w)) = Inl KeyboardInterrupt \<longrightarrow>
      try_body env w lv =
        (Some KeyboardInterrupt, lv, snd (capture_webcam_frame (w_camera w))))
   \<and> (fst (capture_webcam_frame (w_camera w)) = Inr f \<and>
       fst (record_microphone_wav AUDIO_SECONDS (w_microphone w)) = Inl KeyboardInterrupt \<longrightarrow>
      try_body env w lv =
        (Some KeyboardInterrupt, lv\<lparr>frame_b64 := Some f\<rparr>,
         snd (capture_webcam_frame (w_camera w)) @
         snd (record_microphone_wav AUDIO_SECONDS (w_microphone w))))
   \<and> (fst (capture_webcam_frame (w_camera w)) = Inr f \<and>
       fst (record_microphone_wav AUDIO_SECONDS (w_microphone w)) = Inr p \<and>
       fst (transcribe_audio_with_gemini p (w_transcriber w)) = Inl KeyboardInterrupt \<longrightarrow>
      try_body env w lv =
        (Some KeyboardInterrupt, lv\<lparr>frame_b64 := Some f, wav_path := Some p\<rparr>,
         snd (capture_webcam_frame (w_camera w)) @
         snd (record_microphone_wav AUDIO_SECONDS (w_microphone w)) @
         snd (transcribe_audio_with_gemini p (w_transcriber w))))
   \<and> (fst (capture_webcam_frame (w_camera w)) = Inr f \<and>
       fst (record_microphone_wav AUDIO_SECONDS (w_microphone w)) = Inr p \<and>
       fst (transcribe_audio_with_gemini p (w_transcriber w)) = Inr t \<and>
       w_transcript_print w = Inr () \<and>
       fst (generate_goofy_reply f t (w_completion w)) = Inl KeyboardInterrupt \<longrightarrow>
      try_body env w lv =
        (Some KeyboardInterrupt,
         lv\<lparr>frame_b64 := Some f, wav_path := Some p, transcript_text := Some t\<rparr>,
         snd (capture_webcam_frame (w_camera w)) @
         snd (record_microphone_wav AUDIO_SECONDS (w_microphone w)) @
         snd (transcribe_audio_with_gemini p (w_transcriber w)) @
         [Call (Print (transcript_msg t))] @
         snd (generate_goofy_reply f t (w_completion w))))
   \<and> (fst (capture_webcam_frame (w_camera w)) = Inr f \<and>
       fst (record_microphone_wav AUDIO_SECONDS (w_microphone w)) = Inr p \<and>
       fst (transcribe_audio_with_gemini p (w_transcriber w)) = Inr t \<and>
       w_transcript_print w = Inr () \<and>
       fst (generate_goofy_reply f t (w_completion w)) = Inr r \<and>
       w_reply_print w = Inr () \<and>
       fst (speak_with_elevenlabs env r (voice_id lv) (w_speaker w)) = Inl KeyboardInterrupt \<longrightarrow>
      try_body env w lv =
        (Some KeyboardInterrupt,
         lv\<lparr>frame_b64 := Some f, wav_path := Some p, transcript_text := Some t,
            reply := Some r\<rparr>,
         snd (capture_webcam_frame (w_camera w)) @
         snd (record_microphone_wav AUDIO_SECONDS (w_microphone w)) @
         snd (transcribe_audio_with_gemini p (w_transcriber w)) @
         [Call (Print (transcript_msg t))] @
         snd (generate_goofy_reply f t (w_completion w)) @
         [Call (Print (reply_msg r))] @
         snd (speak_with_elevenlabs env r (voice_id lv) (w_speaker w))))
   \<and> (fst (loop env lv ws') = Exited \<longrightarrow>
      (\<exists>w'\<in>set ws'. fst (try_body env w' lv) = Some KeyboardInterrupt) \<and>
      snd (loop env lv ws') \<noteq> [] \<and>
      last (snd (loop env lv ws')) =
        Call (Print ([CHR 0x0A, CHR 0xF0, CHR 0x9F, CHR 0x91, CHR 0x8B] @ '' Saliendo...'')))"
proof -
  have fw: "[CHR 0x0A, CHR 0xF0, CHR 0x9F, CHR 0x91, CHR 0x8B] @ '' Saliendo...'' = farewell_msg"
    by (simp add: farewell_msg_def)
  have a: "loop env lv (w # ws) =
      (Exited, snd (snd (try_body env w lv)) @ [Call (Print farewell_msg)])"
    if "fst (try_body env w lv) = Some KeyboardInterrupt" "w_farewell_print w = Inr ()"
    using that by (simp add: loop_Cons on_interrupt_unfold del: loop.simps)
  note b = try_body_step_interrupted [where e = KeyboardInterrupt]
  note c = loop_Exited [of env lv ws']
  show ?thesis
    unfolding fw
    by (intro conjI impI; (elim conjE)?; (rule a b c [THEN conjunct1]
          c [THEN conjunct2, THEN conjunct1] c [THEN conjunct2, THEN conjunct2]; assumption))
qed

theorem loop_exit_conditions_witness:
  "loop both_keys (initial_locals ''v'' (Finite 1)) [interrupted_world, good_world] =
     (Exited,
      [Call (VideoCapture 0 True), Call CamRead, Call CamRelease,
       Call (Imencode ''.jpg'' [1, 2, 3]),
       Call (Print (recording_msg 4)), Call (SdRec 64000 16000 1 ''float32''),
       Fail SdWait KeyboardInterrupt,
       Call (Print ([CHR 0x0A, CHR 0xF0, CHR 0x9F, CHR 0x91, CHR 0x8B] @ '' Saliendo...''))])
   \<and> try_body both_keys (good_world\<lparr>w_camera := interrupted_camera\<rparr>)
        (initial_locals ''v'' (Finite 1)) =
     (Some KeyboardInterrupt, initial_locals ''v'' (Finite 1),
      [Call (VideoCapture 0 True), Fail CamRead KeyboardInterrupt])
   \<and> try_body both_keys interrupted_world (initial_locals ''v'' (Finite 1)) =
     (Some KeyboardInterrupt, initial_locals ''v'' (Finite 1)\<lparr>frame_b64 := Some ''/9gBAgM=''\<rparr>,
      [Call (VideoCapture 0 True), Call CamRead, Call CamRelease,
       Call (Imencode ''.jpg'' [1, 2, 3]),
       Call (Print (recording_msg 4)), Call (SdRec 64000 16000 1 ''float32''),
       Fail SdWait KeyboardInterrupt])
   \<and> fst (try_body both_keys
        (good_world\<lparr>w_transcriber := good_transcriber\<lparr>transcription := Inl KeyboardInterrupt\<rparr>\<rparr>)
        (initial_locals ''v'' (Finite 1))) = Some KeyboardInterrupt
   \<and> fst (try_body both_keys interrupted_completion_world (initial_locals ''v'' (Finite 1))) =
     Some KeyboardInterrupt
   \<and> fst (try_body both_keys
        (good_world\<lparr>w_speaker := good_speaker\<lparr>sd_play_wait := Inl KeyboardInterrupt\<rparr>\<rparr>)
        (initial_locals ''v'' (Finite 1))) = Some KeyboardInterrupt
   \<and> (\<exists>w'\<in>set [interrupted_world, good_world].
        fst (try_body both_keys w' (initial_locals ''v'' (Finite 1))) = Some KeyboardInterrupt)"
proof -
  let ?lv = "initial_locals ''v'' (Finite 1)"
  let ?w1 = "good_world\<lparr>w_camera := interrupted_camera\<rparr>"
  let ?w3 = "good_world\<lparr>w_transcriber :=
    good_transcriber\<lparr>transcription := Inl KeyboardInterrupt\<rparr>\<rparr>"
  let ?w5 = "good_world\<lparr>w_speaker := good_speaker\<lparr>sd_play_wait := Inl KeyboardInterrupt\<rparr>\<rparr>"
  note th = loop_exit_conditions [where env = both_keys and lv = ?lv
      and f = "''/9gBAgM=''" and p = "''/tmp/a.wav''" and t = "''hola''" and r = "''jaja''"]
  have rec2: "record_microphone_wav AUDIO_SECONDS (w_microphone interrupted_world) =
      (Inl KeyboardInterrupt,
       [Call (Print (recording_msg 4)), Call (SdRec 64000 16000 1 ''float32''),
        Fail SdWait KeyboardInterrupt])"
    by (simp add: interrupted_world_def record_microphone_wav_def io_simps good_microphone_def
        AUDIO_SECONDS_def AUDIO_SAMPLE_RATE_def)
  have cam2: "w_camera interrupted_world = good_camera"
    and fp: "w_farewell_print interrupted_world = Inr ()"
    by (simp_all add: interrupted_world_def good_world_fields)
  have c2: "try_body both_keys ?w1 ?lv =
      (Some KeyboardInterrupt, ?lv, [Call (VideoCapture 0 True), Fail CamRead KeyboardInterrupt])"
    using th [of ?w1 "[]" "[]", THEN conjunct2, THEN conjunct1]
    by (simp add: capture_unfold interrupted_camera_def good_camera_def)
  have c3: "try_body both_keys interrupted_world ?lv =
      (Some KeyboardInterrupt, ?lv\<lparr>frame_b64 := Some ''/9gBAgM=''\<rparr>,
       [Call (VideoCapture 0 True), Call CamRead, Call CamRelease,
        Call (Imencode ''.jpg'' [1, 2, 3]),
        Call (Print (recording_msg 4)), Call (SdRec 64000 16000 1 ''float32''),
        Fail SdWait KeyboardInterrupt])"
    using th [of interrupted_world "[]" "[]", THEN conjunct2, THEN conjunct2, THEN conjunct1]
    by (simp add: cam2 good_capture rec2)
  have c4: "fst (try_body both_keys ?w3 ?lv) = Some KeyboardInterrupt"
    using th [of ?w3 "[]" "[]", THEN conjunct2, THEN conjunct2, THEN conjunct2, THEN conjunct1]
    by (simp add: good_world_fields good_capture good_record good_transcriber_def
        transcribe_audio_with_gemini_def io_simps)
  have c5: "fst (try_body both_keys interrupted_completion_world ?lv) = Some KeyboardInterrupt"
    using th [of interrupted_completion_world "[]" "[]", THEN conjunct2, THEN conjunct2,
        THEN conjunct2, THEN conjunct2, THEN conjunct1]
    by (simp add: interrupted_completion_world_def good_world_fields good_capture good_record
        good_transcribe generate_goofy_reply_def io_simps)
  have c6: "fst (try_body both_keys ?w5 ?lv) = Some KeyboardInterrupt"
    using th [of ?w5 "[]" "[]", THEN conjunct2, THEN conjunct2, THEN conjunct2, THEN conjunct2,
        THEN conjunct2, THEN conjunct1]
    by (simp add: good_world_fields good_capture good_record good_transcribe good_generate
        good_speaker_def speak_with_elevenlabs_def environ_item_def io_simps call_def
        both_keys_def)
  have c1: "loop both_keys ?lv [interrupted_world, good_world] =
      (Exited,
       [Call (VideoCapture 0 True), Call CamRead, Call CamRelease,
        Call (Imencode ''.jpg'' [1, 2, 3]),
        Call (Print (recording_msg 4)), Call (SdRec 64000 16000 1 ''float32''),
        Fail SdWait KeyboardInterrupt,
        Call (Print ([CHR 0x0A, CHR 0xF0, CHR 0x9F, CHR 0x91, CHR 0x8B] @ '' Saliendo...''))])"
    using th [of interrupted_world "[good_world]" "[]", THEN conjunct1]
    by (simp add: c3 fp del: loop.simps)
  have c7: "\<exists>w'\<in>set [interrupted_world, good_world].
      fst (try_body both_keys w' ?lv) = Some KeyboardInterrupt"
    using th [of interrupted_world "[]" "[interrupted_world, good_world]", THEN conjunct2,
        THEN conjunct2, THEN conjunct2, THEN conjunct2, THEN conjunct2, THEN conjunct2] c1
    by (simp del: loop.simps)
  show ?thesis
    by (intro conjI) (rule c1 c2 c3 c4 c5 c6 c7)+
qed

subsection \<open>Playback\<close>

lemma playback_closed_append:
  "playback_closed xs \<Longrightarrow> playback_closed ys \<Longrightarrow> playback_closed (xs @ ys)"
  by (induction xs rule: playback_closed.induct) (auto split: list.splits)

lemma capture_closed: "playback_closed (snd (capture_webcam_frame c))"
  by (simp add: capture_unfold split: sum.splits prod.splits)

lemma record_closed: "playback_closed (snd (record_microphone_wav n m))"
  by (cases "rec_print m"; cases "sd_rec m"; cases "sd_rec_wait m"; cases "wav_tempfile m";
      cases "sf_write m")
     (simp_all add: record_microphone_wav_def io_simps)

lemma transcribe_closed: "playback_closed (snd (transcribe_audio_with_gemini p t))"
  by (cases "wav_bytes t"; cases "transcription t")
     (simp_all add: transcribe_audio_with_gemini_def io_simps)

lemma generate_closed: "playback_closed (snd (generate_goofy_reply f t c))"
  by (cases c)
     (simp_all add: generate_goofy_reply_def io_simps split: list.splits option.splits)

lemma speak_closed: "playback_closed (snd (speak_with_elevenlabs env r v s))"
  by (cases "env ''ELEVENLABS_API_KEY''"; cases "el_client s"; cases "tts_convert s";
      cases "mp3_tempfile s"; cases "mp3_write s"; cases "sf_read s"; cases "sd_play s";
      cases "sd_play_wait s")
     (auto simp: speak_with_elevenlabs_def environ_item_def io_simps call_def Let_def
        event_action_def split: prod.splits)

lemma print_closed:
  "playback_closed xs \<Longrightarrow> playback_closed (xs @ [Call (Print s)])"
  "playback_closed xs \<Longrightarrow> playback_closed (xs @ [Fail (Print s) e])"
  "playback_closed xs \<Longrightarrow> playback_closed (xs @ [Call (Sleep d)])"
  "playback_closed xs \<Longrightarrow> playback_closed (xs @ [Fail (Sleep d) e])"
  by (rule playback_closed_append, assumption, simp)+

lemma try_body_closed: "playback_closed (snd (snd (try_body env w lv)))"
proof -
  note steps = capture_closed [of "w_camera w"]
    record_closed [of AUDIO_SECONDS "w_microphone w"]
    transcribe_closed [of _ "w_transcriber w"]
    generate_closed [of _ _ "w_completion w"]
    speak_closed [of env _ "voice_id lv" "w_speaker w"]
  obtain r1 es1 where s1: "capture_webcam_frame (w_camera w) = (r1, es1)"
    by (cases "capture_webcam_frame (w_camera w)")
  obtain r2 es2 where s2: "record_microphone_wav AUDIO_SECONDS (w_microphone w) = (r2, es2)"
    by (cases "record_microphone_wav AUDIO_SECONDS (w_microphone w)")
  have c1: "playback_closed es1" and c2: "playback_closed es2"
    using steps(1,2) s1 s2 by simp_all
  have c12: "playback_closed (es1 @ es2)"
    using c1 c2 by (rule playback_closed_append)
  have c3: "playback_closed (es1 @ es2 @ es3)"
    if "transcribe_audio_with_gemini p (w_transcriber w) = (r3, es3)" for p r3 es3
    using c12 steps(3) [of p] that by (simp add: playback_closed_append flip: append_assoc)
  have c3p: "playback_closed (es1 @ es2 @ es3 @ [Call (Print s)])"
    "playback_closed (es1 @ es2 @ es3 @ [Fail (Print s) e])"
    if "transcribe_audio_with_gemini p (w_transcriber w) = (r3, es3)" for p r3 es3 s e
    using print_closed(1,2) [OF c3 [OF that]] by simp_all
  have c4: "playback_closed (es1 @ es2 @ es3 @ Call (Print s) # es4)"
    if "transcribe_audio_with_gemini p (w_transcriber w) = (r3, es3)"
      "generate_goofy_reply f t (w_completion w) = (r4, es4)" for p r3 es3 s f t r4 es4
    using playback_closed_append [OF c3p(1) [OF that(1), of s], of es4] steps(4) [of f t] that(2)
    by simp
  have c4p: "playback_closed (es1 @ es2 @ es3 @ Call (Print s) # es4 @ [Call (Print s')])"
    "playback_closed (es1 @ es2 @ es3 @ Call (Print s) # es4 @ [Fail (Print s') e])"
    if "transcribe_audio_with_gemini p (w_transcriber w) = (r3, es3)"
      "generate_goofy_reply f t (w_completion w) = (r4, es4)" for p r3 es3 s f t r4 es4 s' e
    using print_closed(1,2) [OF c4 [OF that, of s]] by simp_all
  have c5: "playback_closed (es1 @ es2 @ es3 @ Call (Print s) # es4 @ Call (Print s') # es5)"
    if "transcribe_audio_with_gemini p (w_transcriber w) = (r3, es3)"
      "generate_goofy_reply f t (w_completion w) = (r4, es4)"
      "speak_with_elevenlabs env r (voice_id lv) (w_speaker w) = (r5, es5)"
    for p r3 es3 s f t r4 es4 s' r r5 es5
    using playback_closed_append [OF c4p(1) [OF that(1,2), of s s'], of es5] steps(5) [of r]
      that(3)
    by simp
  have c5p: "playback_closed (es1 @ es2 @ es3 @ Call (Print s) # es4 @ Call (Print s') # es5 @
      [Call (Sleep d)])"
    "playback_closed (es1 @ es2 @ es3 @ Call (Print s) # es4 @ Call (Print s') # es5 @
      [Fail (Sleep d) e])"
    if "transcribe_audio_with_gemini p (w_transcriber w) = (r3, es3)"
      "generate_goofy_reply f t (w_completion w) = (r4, es4)"
      "speak_with_elevenlabs env r (voice_id lv) (w_speaker w) = (r5, es5)"
    for p r3 es3 s f t r4 es4 s' r r5 es5 d e
    using print_closed(3,4) [OF c5 [OF that, of s s']] by simp_all
  show ?thesis
    using s1 s2 c1 c12
    by (auto simp: try_body_unfold split: prod.splits sum.splits
        intro: c3 c3p c4 c4p c5 c5p)
qed

lemma handlers_closed:
  "playback_closed (snd (on_interrupt w))"
  "playback_closed (snd (on_exception w e))"
  by (simp_all add: on_interrupt_unfold on_exception_unfold split: sum.splits)

lemma loop_closed: "playback_closed (snd (loop env lv ws))"
proof (induction ws)
  case Nil
  show ?case by simp
next
  case (Cons w ws)
  have b: "playback_closed (snd (snd (try_body env w lv)))"
    by (rule try_body_closed)
  have p: "playback_closed (snd (snd (try_body env w lv)) @ tl)" if "playback_closed tl" for tl
    using b that by (rule playback_closed_append)
  have q: "playback_closed ((snd (snd (try_body env w lv)) @ snd (on_exception w e)) @ tl)"
    if "playback_closed tl" for tl e
    using p [OF handlers_closed(2)] that by (rule playback_closed_append)
  show ?case
    using Cons.IH
    by (auto simp: loop_Cons after_def b simp del: loop.simps append_assoc
        split: option.splits sum.splits intro!: p q handlers_closed)
qed

subsection \<open>What the running loop may do\<close>

lemma try_body_steady: "list_all (steady_event env lv) (snd (snd (try_body env w lv)))"
proof -
  have "list_all (steady_event env lv) (snd (capture_webcam_frame (w_camera w)))"
    "list_all (steady_event env lv) (snd (record_microphone_wav AUDIO_SECONDS (w_microphone w)))"
    "\<And>p. list_all (steady_event env lv) (snd (transcribe_audio_with_gemini p (w_transcriber w)))"
    "\<And>f t. list_all (steady_event env lv) (snd (generate_goofy_reply f t (w_completion w)))"
    "\<And>r. list_all (steady_event env lv)
       (snd (speak_with_elevenlabs env r (voice_id lv) (w_speaker w)))"
    by (rule capture_steady record_steady transcribe_steady generate_steady speak_steady)+
  then show ?thesis
    by (auto simp: try_body_unfold steady_event_simps split: prod.splits sum.splits
        dest!: arg_cong [where f = snd])
qed

lemma handlers_steady:
  "list_all (steady_event env lv) (snd (on_interrupt w))"
  "list_all (steady_event env lv) (snd (on_exception w e))"
  by (simp_all add: on_interrupt_unfold on_exception_unfold steady_event_simps
      split: sum.splits)

lemma loop_steady: "list_all (steady_event env lv) (snd (loop env lv ws))"
proof (induction ws)
  case Nil
  show ?case by simp
next
  case (Cons w ws)
  then show ?case
    using try_body_steady [of env lv w]
    by (simp add: loop_Cons after_def handlers_steady del: loop.simps
        split: option.splits sum.splits)
qed

lemma steady_TtsConvert:
  "list_all (steady_event env lv) es \<Longrightarrow> ev \<in> set es \<Longrightarrow>
   event_action ev = TtsConvert v m t \<Longrightarrow> v = voice_id lv"
  by (auto simp: list_all_iff steady_event_def)

lemma steady_Sleep:
  "list_all (steady_event env lv) es \<Longrightarrow> ev \<in> set es \<Longrightarrow>
   event_action ev = Sleep d \<Longrightarrow> d = loop_delay lv \<or> d = Finite 1"
  by (auto simp: list_all_iff steady_event_def)

lemma startup_cases:
  "startup bt env =
     (Inl (RuntimeError gemini_missing_msg), [Call LoadDotenv, Call (GetEnv ''GEMINI_API_KEY'')])
   \<or> startup bt env =
     (Inl (RuntimeError elevenlabs_missing_msg),
      [Call LoadDotenv, Call (GetEnv ''GEMINI_API_KEY''), Call (GetEnv ''ELEVENLABS_API_KEY'')])
   \<or> (\<exists>e. startup bt env = (Inl e, env_reads))
   \<or> (\<exists>e. startup bt env = (Inl e, env_reads @ [Fail (Print started_banner) e]))
   \<or> (\<exists>d. py_float (unicode_float bt) (delay_text env) = Inr d \<and>
          startup bt env =
            (Inr (initial_locals (voice_text env) d), env_reads @ [Call (Print started_banner)]))"
proof (cases "py_not (env ''GEMINI_API_KEY'')")
  case True
  then show ?thesis by (simp add: startup_no_gemini)
next
  case g: False
  show ?thesis
  proof (cases "py_not (env ''ELEVENLABS_API_KEY'')")
    case True
    with g show ?thesis by (simp add: startup_no_elevenlabs)
  next
    case e: False
    show ?thesis
    proof (cases "py_float (unicode_float bt) (delay_text env)")
      case (Inl x)
      with g e have "startup bt env = (Inl x, env_reads)" by (simp add: startup_bad_delay)
      then show ?thesis by blast
    next
      case d: (Inr d)
      show ?thesis
      proof (cases "banner_print bt")
        case (Inl x)
        with g e d have "startup bt env = (Inl x, env_reads @ [Fail (Print started_banner) x])"
          by (simp add: startup_no_banner)
        then show ?thesis by blast
      next
        case (Inr u)
        with g e d show ?thesis by (simp add: startup_ok)
      qed
    qed
  qed
qed

lemma startup_Inr:
  assumes "startup bt env = (Inr lv0, es0)"
  shows "\<exists>d. py_float (unicode_float bt) (delay_text env) = Inr d \<and>
             lv0 = initial_locals (voice_text env) d \<and>
             es0 = env_reads @ [Call (Print started_banner)]"
  using startup_cases [of bt env] assms by auto

lemma startup_events_quiet:
  assumes "ev \<in> set (snd (startup bt env))"
  shows "\<forall>v m t. event_action ev \<noteq> TtsConvert v m t" "\<forall>d. event_action ev \<noteq> Sleep d"
  using startup_cases [of bt env] assms
  by (auto simp: env_reads_def event_action_def)

lemma main_events:
  assumes "ev \<in> set (snd (main bt dotenv environ ws))"
  shows "ev \<in> set (snd (startup bt (load_dotenv dotenv environ))) \<or>
         (\<exists>d. py_float (unicode_float bt) (delay_text (load_dotenv dotenv environ)) = Inr d \<and>
              ev \<in> set (snd (loop (load_dotenv dotenv environ)
                (initial_locals (voice_text (load_dotenv dotenv environ)) d) ws)))"
proof (cases "startup bt (load_dotenv dotenv environ)")
  case (Pair r es)
  show ?thesis
  proof (cases r)
    case (Inl e)
    with Pair assms show ?thesis by (simp add: main_startup_error)
  next
    case (Inr lv)
    with Pair startup_Inr [of bt "load_dotenv dotenv environ" lv es] assms show ?thesis
      by (auto simp: main_startup_ok after_def)
  qed
qed

lemma main_closed: "playback_closed (snd (main bt dotenv environ ws))"
proof (cases "startup bt (load_dotenv dotenv environ)")
  case (Pair r es)
  have c: "playback_closed es"
    using startup_cases [of bt "load_dotenv dotenv environ"] Pair
    by (auto simp: env_reads_def)
  show ?thesis
  proof (cases r)
    case (Inl e)
    with Pair c show ?thesis by (simp add: main_startup_error)
  next
    case (Inr lv)
    with Pair c show ?thesis
      by (simp add: main_startup_ok after_def playback_closed_append loop_closed)
  qed
qed

lemma startup_both_keys:
  "startup good_boot (load_dotenv Map.empty both_keys) =
     (Inr (initial_locals ''JBFqnCBsd6RMkjVDRZzb'' (Finite 1)),
      [Call LoadDotenv, Call (GetEnv ''GEMINI_API_KEY''),
       Call (GetEnv ''ELEVENLABS_API_KEY''), Call (GetEnv ''ELEVENLABS_VOICE_ID''),
       Call (GetEnv ''LOOP_DELAY_SECONDS''), Call (Print started_banner)])"
proof -
  have "startup good_boot both_keys =
      (Inr (initial_locals (voice_text both_keys) (Finite 1)),
       env_reads @ [Call (Print started_banner)])"
    by (rule startup_ok [where u = "()"])
       (simp_all add: both_keys_def py_not_def delay_text_def py_float_one good_boot_def)
  then show ?thesis
    by (simp add: load_dotenv_def voice_text_def both_keys_def DEFAULT_VOICE_ID_def
        env_reads_def)
qed

lemma good_run:
  "main good_boot Map.empty both_keys [good_world] =
     (Running,
      [Call LoadDotenv, Call (GetEnv ''GEMINI_API_KEY''), Call (GetEnv ''ELEVENLABS_API_KEY''),
       Call (GetEnv ''ELEVENLABS_VOICE_ID''), Call (GetEnv ''LOOP_DELAY_SECONDS''),
       Call (Print started_banner)] @
      good_events ''JBFqnCBsd6RMkjVDRZzb'' (Finite 1))"
  by (simp add: main_both_keys good_try_body after_def env_reads_def initial_locals_def
      DEFAULT_VOICE_ID_def)

text \<open>
  Claim C6. When \<open>speak_with_elevenlabs\<close> returns, the last two things it did were to
  start the playback and to wait for it: \<open>sd.wait()\<close> had returned, so the playback was
  over. In an iteration whose \<open>try\<close> body completes, the pause of the loop comes right
  after that wait. And in every run of \<open>main\<close>, every playback that was started is
  followed at once by its wait, so no playback is started while another is going on.
\<close>

theorem playback_completes_before_sleep:
  "(fst (speak_with_elevenlabs env text voice s) = Inr u \<longrightarrow>
      (\<exists>pre d sr. snd (speak_with_elevenlabs env text voice s) =
         pre @ [Call (SdPlay d sr), Call SdWait]))
   \<and> (try_body env w lv = (None, lv', es) \<longrightarrow>
      (\<exists>pre d sr. es = pre @ [Call (SdPlay d sr), Call SdWait, Call (Sleep (loop_delay lv))]))
   \<and> playback_closed (snd (main bt dotenv environ ws))"
proof -
  have speak_tail: "\<exists>pre d sr. snd (speak_with_elevenlabs env msg voice s) =
      pre @ [Call (SdPlay d sr), Call SdWait]"
    if "fst (speak_with_elevenlabs env msg voice s) = Inr u" for msg voice u s
  proof -
    from speak_returns [OF that] obtain key chunks path d sr where
      "snd (speak_with_elevenlabs env msg voice s) =
         [Call (GetEnv ''ELEVENLABS_API_KEY''), Call (ElevenLabs key),
          Call (TtsConvert voice ''eleven_multilingual_v2'' msg), Call (TempFile ''.mp3''),
          Call (WriteFile path (concat chunks)), Call (SfRead path ''float32'')] @
         [Call (SdPlay d sr), Call SdWait]"
      by auto
    then show ?thesis by (intro exI)
  qed
  have iter: "\<exists>pre d sr. es =
      pre @ [Call (SdPlay d sr), Call SdWait, Call (Sleep (loop_delay lv))]"
    if a: "try_body env w lv = (None, lv', es)"
  proof -
    from a obtain t r es1 es2 es3 es4 es5 where
      sp: "speak_with_elevenlabs env r (voice_id lv) (w_speaker w) = (Inr (), es5)"
      and es: "es = es1 @ es2 @ es3 @ [Call (Print (transcript_msg t))] @ es4 @
                    [Call (Print (reply_msg r))] @ es5 @ [Call (Sleep (loop_delay lv))]"
      by (auto simp: try_body_unfold split: prod.splits sum.splits)
    from sp have "fst (speak_with_elevenlabs env r (voice_id lv) (w_speaker w)) = Inr ()"
      by simp
    from speak_tail [OF this] sp obtain pre d sr where
      "es5 = pre @ [Call (SdPlay d sr), Call SdWait]"
      by auto
    with es have "es = (es1 @ es2 @ es3 @ [Call (Print (transcript_msg t))] @ es4 @
        [Call (Print (reply_msg r))] @ pre) @
        [Call (SdPlay d sr), Call SdWait, Call (Sleep (loop_delay lv))]"
      by simp
    then show ?thesis by (intro exI)
  qed
  show ?thesis
    by (intro conjI impI; (rule speak_tail iter main_closed; assumption?))
qed

theorem playback_completes_before_sleep_witness:
  "fst (speak_with_elevenlabs both_keys ''jaja'' ''v'' good_speaker) = Inr ()
   \<and> (\<exists>pre d sr. snd (speak_with_elevenlabs both_keys ''jaja'' ''v'' good_speaker) =
         pre @ [Call (SdPlay d sr), Call SdWait])
   \<and> fst (try_body both_keys good_world (initial_locals ''v'' (Finite 1))) = None
   \<and> (\<exists>pre d sr. good_events ''v'' (Finite 1) =
         pre @ [Call (SdPlay d sr), Call SdWait, Call (Sleep (Finite 1))])
   \<and> playback_closed (snd (main good_boot Map.empty both_keys [good_world, good_world]))"
proof -
  let ?lv = "initial_locals ''v'' (Finite 1)"
  let ?lv' = "?lv\<lparr>frame_b64 := Some ''/9gBAgM='', wav_path := Some ''/tmp/a.wav'',
                   transcript_text := Some ''hola'', reply := Some ''jaja''\<rparr>"
  note th = playback_completes_before_sleep [of both_keys "''jaja''" "''v''" good_speaker "()"
      good_world ?lv ?lv' "good_events ''v'' (Finite 1)" good_boot Map.empty both_keys
      "[good_world, good_world]"]
  have p1: "fst (speak_with_elevenlabs both_keys ''jaja'' ''v'' good_speaker) = Inr ()"
    by (simp add: good_speak)
  have p2: "try_body both_keys good_world ?lv = (None, ?lv', good_events ''v'' (Finite 1))"
    by (simp add: good_try_body initial_locals_def)
  have d: "loop_delay ?lv = Finite 1"
    by (simp add: initial_locals_def)
  note c1 = th [THEN conjunct1, THEN mp, OF p1]
  note c2 = th [THEN conjunct2, THEN conjunct1, THEN mp, OF p2, unfolded d]
  note c3 = th [THEN conjunct2, THEN conjunct2]
  from p2 have p2': "fst (try_body both_keys good_world ?lv) = None"
    by simp
  show ?thesis
    by (intro conjI) (rule p1 c1 p2' c2 c3)+
qed

subsection \<open>Configuration\<close>




text \<open>
  Claim C9. If \<open>ELEVENLABS_VOICE_ID\<close> is not set, every synthesis request of the run
  names the voice \<open>JBFqnCBsd6RMkjVDRZzb\<close>, the voice of the locals after start-up. If
  \<open>LOOP_DELAY_SECONDS\<close> is not set, every pause of the run lasts \<open>1.0\<close> seconds, the
  delay of the locals after start-up is \<open>1.0\<close>, and an iteration whose \<open>try\<close> body
  completes ends with the pause of \<open>1.0\<close> seconds and leaves the delay as it was.
\<close>

theorem configuration_defaults:
  "(load_dotenv dotenv environ ''ELEVENLABS_VOICE_ID'' = None \<longrightarrow>
      (\<forall>ev\<in>set (snd (main bt dotenv environ ws)).
         \<forall>v m t. event_action ev = TtsConvert v m t \<longrightarrow> v = ''JBFqnCBsd6RMkjVDRZzb''))
   \<and> (load_dotenv dotenv environ ''LOOP_DELAY_SECONDS'' = None \<longrightarrow>
      (\<forall>ev\<in>set (snd (main bt dotenv environ ws)).
         \<forall>d. event_action ev = Sleep d \<longrightarrow> d = Finite 1))
   \<and> (load_dotenv dotenv environ ''ELEVENLABS_VOICE_ID'' = None \<and>
       startup bt (load_dotenv dotenv environ) = (Inr lv0, es0) \<longrightarrow>
      voice_id lv0 = ''JBFqnCBsd6RMkjVDRZzb'')
   \<and> (load_dotenv dotenv environ ''LOOP_DELAY_SECONDS'' = None \<and>
       startup bt (load_dotenv dotenv environ) = (Inr lv0, es0) \<and>
       try_body (load_dotenv dotenv environ) w lv0 = (None, lv', es) \<longrightarrow>
      loop_delay lv0 = Finite 1 \<and> es \<noteq> [] \<and> last es = Call (Sleep (Finite 1)) \<and>
      loop_delay lv' = Finite 1)"
proof -
  let ?env = "load_dotenv dotenv environ"
  have voice: "v = ''JBFqnCBsd6RMkjVDRZzb''"
    if none: "?env ''ELEVENLABS_VOICE_ID'' = None"
      and ev: "ev \<in> set (snd (main bt dotenv environ ws))"
      and tts: "event_action ev = TtsConvert v m t" for ev v m t
  proof -
    from main_events [OF ev] startup_events_quiet(1) [of ev bt ?env] tts
    obtain d where "ev \<in> set (snd (loop ?env (initial_locals (voice_text ?env) d) ws))"
      by auto
    with loop_steady [of ?env "initial_locals (voice_text ?env) d" ws]
    have "v = voice_id (initial_locals (voice_text ?env) d)"
      using tts by (rule steady_TtsConvert)
    with none show ?thesis
      by (simp add: initial_locals_def voice_text_def DEFAULT_VOICE_ID_def)
  qed
  have delay: "d = Finite 1"
    if none: "?env ''LOOP_DELAY_SECONDS'' = None"
      and ev: "ev \<in> set (snd (main bt dotenv environ ws))"
      and sl: "event_action ev = Sleep d" for ev d
  proof -
    from none have one: "py_float (unicode_float bt) (delay_text ?env) = Inr (Finite 1)"
      by (simp add: delay_text_def py_float_one)
    from main_events [OF ev] startup_events_quiet(2) [of ev bt ?env] sl one
    have "ev \<in> set (snd (loop ?env (initial_locals (voice_text ?env) (Finite 1)) ws))"
      by auto
    with loop_steady [of ?env "initial_locals (voice_text ?env) (Finite 1)" ws]
    have "d = loop_delay (initial_locals (voice_text ?env) (Finite 1)) \<or> d = Finite 1"
      using sl by (rule steady_Sleep)
    then show ?thesis
      by (simp add: initial_locals_def)
  qed
  have voice0: "voice_id lv0 = ''JBFqnCBsd6RMkjVDRZzb''"
    if "?env ''ELEVENLABS_VOICE_ID'' = None" "startup bt ?env = (Inr lv0, es0)"
    using startup_Inr [OF that(2)] that(1)
    by (auto simp: initial_locals_def voice_text_def DEFAULT_VOICE_ID_def)
  have delay0: "loop_delay lv0 = Finite 1 \<and> es \<noteq> [] \<and> last es = Call (Sleep (Finite 1)) \<and>
      loop_delay lv' = Finite 1"
    if none: "?env ''LOOP_DELAY_SECONDS'' = None" and st: "startup bt ?env = (Inr lv0, es0)"
      and body: "try_body ?env w lv0 = (None, lv', es)"
  proof -
    from startup_Inr [OF st] none have d0: "loop_delay lv0 = Finite 1"
      by (auto simp: initial_locals_def delay_text_def py_float_one)
    from body have "es \<noteq> [] \<and> last es = Call (Sleep (loop_delay lv0))"
      by (auto simp: try_body_unfold split: prod.splits sum.splits)
    moreover from try_body_keeps_config [of lv0 ?env w] body
    have "loop_delay lv' = loop_delay lv0"
      by (simp add: same_config_def)
    ultimately show ?thesis
      using d0 by simp
  qed
  show ?thesis
    using voice delay voice0 delay0 by blast
qed

theorem configuration_defaults_witness:
  "load_dotenv Map.empty both_keys ''ELEVENLABS_VOICE_ID'' = None
   \<and> load_dotenv Map.empty both_keys ''LOOP_DELAY_SECONDS'' = None
   \<and> voice_id (initial_locals ''JBFqnCBsd6RMkjVDRZzb'' (Finite 1)) = ''JBFqnCBsd6RMkjVDRZzb''
   \<and> last (good_events ''JBFqnCBsd6RMkjVDRZzb'' (Finite 1)) = Call (Sleep (Finite 1))
   \<and> Call (TtsConvert ''JBFqnCBsd6RMkjVDRZzb'' ''eleven_multilingual_v2'' ''jaja'')
        \<in> set (snd (main good_boot Map.empty both_keys [good_world]))"
proof -
  let ?lv = "initial_locals ''JBFqnCBsd6RMkjVDRZzb'' (Finite 1)"
  let ?lv' = "?lv\<lparr>frame_b64 := Some ''/9gBAgM='', wav_path := Some ''/tmp/a.wav'',
                   transcript_text := Some ''hola'', reply := Some ''jaja''\<rparr>"
  note th = configuration_defaults [of Map.empty both_keys good_boot "[good_world]" ?lv _ good_world
      ?lv' "good_events ''JBFqnCBsd6RMkjVDRZzb'' (Finite 1)"]
  have v: "load_dotenv Map.empty both_keys ''ELEVENLABS_VOICE_ID'' = None"
    and d: "load_dotenv Map.empty both_keys ''LOOP_DELAY_SECONDS'' = None"
    and e: "load_dotenv Map.empty both_keys = both_keys"
    by (simp_all add: load_dotenv_def both_keys_def)
  have b: "try_body (load_dotenv Map.empty both_keys) good_world ?lv =
      (None, ?lv', good_events ''JBFqnCBsd6RMkjVDRZzb'' (Finite 1))"
    by (simp add: e good_try_body initial_locals_def)
  from th [THEN conjunct2, THEN conjunct2, THEN conjunct1] v startup_both_keys
  have c3: "voice_id ?lv = ''JBFqnCBsd6RMkjVDRZzb''"
    by blast
  from th [THEN conjunct2, THEN conjunct2, THEN conjunct2] d startup_both_keys b
  have c4: "last (good_events ''JBFqnCBsd6RMkjVDRZzb'' (Finite 1)) = Call (Sleep (Finite 1))"
    by blast
  have c5: "Call (TtsConvert ''JBFqnCBsd6RMkjVDRZzb'' ''eleven_multilingual_v2'' ''jaja'')
        \<in> set (snd (main good_boot Map.empty both_keys [good_world]))"
    by (simp add: good_run good_events_def)
  show ?thesis
    by (intro conjI) (rule v d c3 c4 c5)+
qed

end
